theory Spec2Isabelle
  imports Main "HOL-Library.Sublist"
begin

section \<open>SecureMeet: the remote-control client and the session orchestrator\<close>

text \<open>
  The repository's browser extension (popup.js, background.js, content.js) is embedded
  function by function: a script's mutable variables and the browser objects it touches
  become a record that each handler takes and returns, a JSON object becomes a record, a
  thrown exception becomes a value, and an interval or alarm loop becomes a recursive
  function over the sequence of server replies. The desktop application that the
  extension controls is not among the sources; its session orchestrator is modelled from
  the specification, in a subsection of its own.
\<close>

subsection \<open>JavaScript strings\<close>

text \<open>
  \<^verbatim>\<open>s.includes(p)\<close> is the substring test; \<^const>\<open>sublist\<close> of the library is
  exactly that (its code equations search the prefixes of every suffix).
\<close>

definition js_includes :: "string \<Rightarrow> string \<Rightarrow> bool" where
  "js_includes s p = sublist p s"

subsection \<open>content.js\<close>

text \<open>
  The page as the content script sees it: the guard property on \<^verbatim>\<open>window\<close>, the
  messages handed to \<^verbatim>\<open>chrome.runtime.sendMessage\<close>, the console, and the listeners
  registered on \<^verbatim>\<open>chrome.runtime.onMessage\<close>. A listener is the closure over
  \<^verbatim>\<open>detectedPlatform\<close> and \<^verbatim>\<open>url\<close>.
\<close>

record runtime_message =
  msg_action :: string
  msg_platform :: "string option"
  msg_url :: "string option"

record check_meeting_listener =
  captured_platform :: "string option"
  captured_url :: string

record page =
  securemeet_loaded :: bool
  sent_messages :: "runtime_message list"
  console_log :: "string list"
  message_listeners :: "check_meeting_listener list"

definition meetings :: "(string \<times> string) list" where
  "meetings =
    [(''meet.google.com'', ''Google Meet''),
     (''zoom.us/j/'', ''Zoom''),
     (''zoom.us/wc/'', ''Zoom''),
     (''zoom.com/j/'', ''Zoom''),
     (''zoom.com/wc/'', ''Zoom''),
     (''teams.microsoft.com'', ''Teams'')]"

text \<open>The \<^verbatim>\<open>for (const m of meetings)\<close> loop with its \<^verbatim>\<open>break\<close>: the first pattern wins.\<close>

fun detect_platform :: "(string \<times> string) list \<Rightarrow> string \<Rightarrow> string option" where
  "detect_platform [] url = None"
| "detect_platform ((pattern, name) # ms) url =
     (if js_includes url pattern then Some name else detect_platform ms url)"

definition content_script :: "string \<Rightarrow> page \<Rightarrow> page" where
  "content_script href w =
     (if securemeet_loaded w then w
      else
        let w1 = w\<lparr>securemeet_loaded := True\<rparr>;
            url = href;
            detectedPlatform = detect_platform meetings url;
            w2 = (case detectedPlatform of
                    None \<Rightarrow> w1
                  | Some name \<Rightarrow>
                      w1\<lparr>console_log := console_log w1 @
                            [''SecureMeet: '' @ name @ '' meeting detected on '' @ url],
                         sent_messages := sent_messages w1 @
                            [\<lparr>msg_action = ''meetingDetected'', msg_platform = Some name,
                              msg_url = Some url\<rparr>]\<rparr>)
        in w2\<lparr>message_listeners := message_listeners w2 @
                [\<lparr>captured_platform = detectedPlatform, captured_url = url\<rparr>]\<rparr>)"

text \<open>The \<^verbatim>\<open>checkMeeting\<close> reply of a registered listener.\<close>

record check_meeting_reply =
  isMeeting :: bool
  reply_platform :: "string option"
  reply_url :: string

definition listener_reply :: "check_meeting_listener \<Rightarrow> string \<Rightarrow> check_meeting_reply option" where
  "listener_reply l action =
     (if action = ''checkMeeting''
      then Some \<lparr>isMeeting = (captured_platform l \<noteq> None),
                 reply_platform = captured_platform l,
                 reply_url = captured_url l\<rparr>
      else None)"

text \<open>Executing the script once for every entry of a list of \<^verbatim>\<open>location.href\<close> values.\<close>

definition inject_all :: "string list \<Rightarrow> page \<Rightarrow> page" where
  "inject_all hrefs w = foldl (\<lambda>p href. content_script href p) w hrefs"

subsection \<open>HTTP requests of the client\<close>

datatype http_method = GET | POST

text \<open>
  A request as \<^verbatim>\<open>fetch\<close> receives it. The body of a POST is the object given to
  \<^verbatim>\<open>JSON.stringify\<close>, as its list of defined members.
\<close>

record http_request =
  req_method :: http_method
  req_url :: string
  req_body :: "(string \<times> string) list option"

definition API_BASE :: string where
  "API_BASE = ''http://127.0.0.1:8765''"

definition apiGet :: "string \<Rightarrow> http_request" where
  "apiGet endpoint = \<lparr>req_method = GET, req_url = API_BASE @ endpoint, req_body = None\<rparr>"

definition apiPost :: "string \<Rightarrow> (string \<times> string) list \<Rightarrow> http_request" where
  "apiPost endpoint body =
     \<lparr>req_method = POST, req_url = API_BASE @ endpoint, req_body = Some body\<rparr>"

text \<open>
  Every place of the extension that issues a request, by the function it stands in
  (popup.js lines 67, 114, 176, 203, 262, 295, 329, 330, 421, and the alarm listener of
  background.js, line 80). \<^verbatim>\<open>startRecording\<close> carries the selected device:
  \<^verbatim>\<open>deviceSelect.value || undefined\<close>, so an empty selection leaves the member out.
\<close>

datatype request_site =
    CheckConnection
  | PollStatus
  | StartRecording string
  | StopRecording
  | LoadDevices
  | PollForResults
  | FetchResultsTranscript
  | FetchResultsSummary
  | CopySummary
  | BackgroundAlarm

fun issued_request :: "request_site \<Rightarrow> http_request" where
  "issued_request CheckConnection = apiGet ''/status''"
| "issued_request PollStatus = apiGet ''/status''"
| "issued_request (StartRecording deviceValue) =
     apiPost ''/start'' (if deviceValue = [] then [] else [(''device_id'', deviceValue)])"
| "issued_request StopRecording = apiPost ''/stop'' []"
| "issued_request LoadDevices = apiGet ''/devices''"
| "issued_request PollForResults = apiGet ''/status''"
| "issued_request FetchResultsTranscript = apiGet ''/transcript''"
| "issued_request FetchResultsSummary = apiGet ''/summary''"
| "issued_request CopySummary = apiGet ''/summary''"
| "issued_request BackgroundAlarm =
     \<lparr>req_method = GET, req_url = ''http://127.0.0.1:8765/status'', req_body = None\<rparr>"

text \<open>
  Where a URL points: the authority of an \<^verbatim>\<open>http\<close> URL runs from the scheme to the
  first of \<^verbatim>\<open>/ ? #\<close>; user information ends at the last \<^verbatim>\<open>@\<close>; the port follows
  the colon after the host.
\<close>

definition url_authority :: "string \<Rightarrow> string option" where
  "url_authority u =
     (if prefix ''http://'' u
      then Some (takeWhile (\<lambda>c. c \<noteq> CHR ''/'' \<and> c \<noteq> CHR ''?'' \<and> c \<noteq> CHR ''#'') (drop 7 u))
      else None)"

definition after_userinfo :: "string \<Rightarrow> string" where
  "after_userinfo a = rev (takeWhile (\<lambda>c. c \<noteq> CHR ''@'') (rev a))"

definition url_host :: "string \<Rightarrow> string option" where
  "url_host u = map_option (\<lambda>a. takeWhile (\<lambda>c. c \<noteq> CHR '':'') (after_userinfo a)) (url_authority u)"

definition url_port :: "string \<Rightarrow> string option" where
  "url_port u =
     map_option (\<lambda>a. drop 1 (dropWhile (\<lambda>c. c \<noteq> CHR '':'') (after_userinfo a))) (url_authority u)"

subsection \<open>popup.js: polling for results\<close>

text \<open>
  The members of a \<^verbatim>\<open>/status\<close> reply that the result polls read. A request whose
  \<^verbatim>\<open>await\<close> throws (no connection, no JSON) is \<open>None\<close>.
\<close>

record status_reply =
  has_transcript :: bool
  has_summary :: bool

text \<open>Number to string, as a template literal prints a non-negative integer.\<close>

fun decimal :: "nat \<Rightarrow> string" where
  "decimal n =
     (if n < 10 then [''0123456789'' ! n]
      else decimal (n div 10) @ [''0123456789'' ! (n mod 10)])"

declare decimal.simps [simp del]

text \<open>
  One call of \<^verbatim>\<open>pollForResults\<close>: its counter, its interval handle (active until
  \<^verbatim>\<open>clearInterval\<close>), the number of its callbacks that are suspended at their
  \<^verbatim>\<open>await\<close>, what its callbacks last wrote to the status line, and their calls of
  \<^verbatim>\<open>fetchResults\<close>.
\<close>

record result_poll =
  attempts :: nat
  resultPoll_active :: bool
  in_flight :: nat
  statusMsg_text :: string
  statusMsg_class :: string
  fetchResults_calls :: nat

definition maxAttempts :: nat where
  "maxAttempts = 150"

text \<open>The two \<^verbatim>\<open>setInterval\<close> periods of popup.js (lines 41 and 323), in milliseconds.\<close>

definition pollStatus_interval :: nat where
  "pollStatus_interval = 2000"

definition resultPoll_interval :: nat where
  "resultPoll_interval = 2000"

definition no_result_message :: string where
  "no_result_message =
     ''No speech detected. Ensure audio is playing and Stereo Mix is enabled in Windows Sound settings.''"

text \<open>The check that closes every run of the callback that did not return early.\<close>

definition give_up_check :: "result_poll \<Rightarrow> result_poll" where
  "give_up_check s =
     (if attempts s \<ge> maxAttempts
      then s\<lparr>resultPoll_active := False,
             statusMsg_text := no_result_message,
             statusMsg_class := ''status-msg error''\<rparr>
      else s)"

text \<open>
  The interval callback is an \<^verbatim>\<open>async\<close> function, so it runs in two pieces. The first
  runs when the interval fires: it counts the attempt and issues the request
  (\<^verbatim>\<open>attempts++\<close>, then \<^verbatim>\<open>apiGet('/status')\<close> up to its \<^verbatim>\<open>await\<close>).
\<close>

definition callback_starts :: "result_poll \<Rightarrow> result_poll" where
  "callback_starts s = s\<lparr>attempts := attempts s + 1, in_flight := in_flight s + 1\<rparr>"

text \<open>
  The second piece runs when the request settles, with its reply or, when the \<^verbatim>\<open>await\<close>
  throws (no connection, no JSON), with \<open>None\<close>. It reads the counter as it is then.
\<close>

definition callback_resumes :: "status_reply option \<Rightarrow> result_poll \<Rightarrow> result_poll" where
  "callback_resumes reply s =
     (let s1 = s\<lparr>in_flight := in_flight s - 1\<rparr> in
      case reply of
        None \<Rightarrow> give_up_check s1
      | Some status \<Rightarrow>
          if has_summary status
          then s1\<lparr>resultPoll_active := False,
                  statusMsg_text := ''Summary ready!'',
                  statusMsg_class := ''status-msg'',
                  fetchResults_calls := fetchResults_calls s1 + 1\<rparr>
          else if has_transcript status \<and> \<not> has_summary status
          then give_up_check
                 (s1\<lparr>statusMsg_text := ''Generating summary...'',
                     statusMsg_class := ''status-msg processing''\<rparr>)
          else if \<not> has_transcript status \<and> \<not> has_summary status
          then give_up_check
                 (s1\<lparr>statusMsg_text :=
                       ''Transcribing locally... ('' @ decimal (attempts s1 * 2) @ ''s elapsed)'',
                     statusMsg_class := ''status-msg processing''\<rparr>)
          else give_up_check s1)"

text \<open>
  What the event loop runs, one piece at a time: the interval fires (only while the handle
  is active), or a request that is in flight settles. Nothing makes a request settle: the
  \<^verbatim>\<open>fetch\<close> has no timeout, and requests may settle late and in any order.
\<close>

datatype poll_event = Tick | Settled "status_reply option"

fun poll_step :: "poll_event \<Rightarrow> result_poll \<Rightarrow> result_poll" where
  "poll_step Tick s = (if resultPoll_active s then callback_starts s else s)"
| "poll_step (Settled reply) s = (if in_flight s = 0 then s else callback_resumes reply s)"

definition poll_run :: "poll_event list \<Rightarrow> result_poll \<Rightarrow> result_poll" where
  "poll_run events s = foldl (\<lambda>p e. poll_step e p) s events"

text \<open>
  \<^verbatim>\<open>pollForResults\<close> itself only sets the counter and the interval up; the status line is
  as its caller left it.
\<close>

definition pollForResults :: "string \<Rightarrow> string \<Rightarrow> result_poll" where
  "pollForResults text cls =
     \<lparr>attempts = 0, resultPoll_active = True, in_flight = 0, statusMsg_text = text,
      statusMsg_class = cls, fetchResults_calls = 0\<rparr>"

text \<open>
  The schedule in which every request settles before the interval fires again: \<open>k\<close> times
  a tick followed by the reply \<open>srv i\<close> to its request.
\<close>

definition answered_in_turn :: "(nat \<Rightarrow> status_reply option) \<Rightarrow> nat \<Rightarrow> poll_event list" where
  "answered_in_turn srv k = concat (map (\<lambda>i. [Tick, Settled (srv i)]) [0..<k])"

text \<open>Whether a reply shows the summary: what makes the callback stop early.\<close>

definition summary_seen :: "status_reply option \<Rightarrow> bool" where
  "summary_seen reply = (case reply of None \<Rightarrow> False | Some status \<Rightarrow> has_summary status)"

text \<open>
  Where such a schedule stands after \<open>k\<close> rounds: stopped at the first reply with the
  summary, stopped at the bound, or still polling with \<open>k\<close> attempts made.
\<close>

definition in_turn_state :: "(nat \<Rightarrow> status_reply option) \<Rightarrow> nat \<Rightarrow> result_poll \<Rightarrow> bool" where
  "in_turn_state srv k r =
     (in_flight r = 0 \<and>
      (case find (\<lambda>i. summary_seen (srv i)) [0..<min k maxAttempts] of
         Some i \<Rightarrow> \<not> resultPoll_active r \<and> attempts r = Suc i \<and>
                   statusMsg_text r = ''Summary ready!'' \<and>
                   statusMsg_class r = ''status-msg'' \<and> fetchResults_calls r = 1
       | None \<Rightarrow>
           fetchResults_calls r = 0 \<and>
           (if k < maxAttempts then resultPoll_active r \<and> attempts r = k
            else \<not> resultPoll_active r \<and> attempts r = maxAttempts \<and>
                 statusMsg_text r = no_result_message \<and>
                 statusMsg_class r = ''status-msg error'')))"

subsection \<open>background.js\<close>

text \<open>
  The script's variable \<^verbatim>\<open>activeMeetingTabId\<close> and the browser objects it writes: the
  action badge, \<^verbatim>\<open>chrome.storage.local\<close>, the alarms by name (with their period in
  seconds), the notifications, the console.
\<close>

datatype storage_value = SBool bool | SList "string list"

record notification =
  notification_id :: string
  notification_type :: string
  notification_iconUrl :: string
  notification_title :: string
  notification_message :: string

record background =
  activeMeetingTabId :: "int option"
  badgeText :: string
  badgeBackgroundColor :: string
  storage_local :: "string \<rightharpoonup> storage_value"
  alarms :: "string \<rightharpoonup> nat"
  notifications :: "notification list"
  background_console :: "string list"

text \<open>
  The script is a Manifest V3 background script: the browser evaluates it when the
  extension is installed and again whenever it wakes the script after an idle period.
  Each evaluation runs \<^verbatim>\<open>let activeMeetingTabId = null\<close>; the badge, the storage, the
  alarms and the notifications are the browser's and stay as they are.
\<close>

definition script_loads :: "background \<Rightarrow> background" where
  "script_loads b = b\<lparr>activeMeetingTabId := None\<rparr>"

text \<open>
  The state at installation, before any listener has run: the browser's objects at their
  defaults (no badge text, nothing stored, no alarm) and the script just evaluated.
\<close>

definition background_start :: background where
  "background_start =
     script_loads
       \<lparr>activeMeetingTabId = None, badgeText = [], badgeBackgroundColor = [],
        storage_local = Map.empty, alarms = Map.empty, notifications = [],
        background_console = []\<rparr>"

text \<open>
  \<^verbatim>\<open>/teams\.microsoft\.com.*meeting/\<close>: the first literal somewhere, then the second on
  the same line. The dot of a regular expression stops at a line terminator: LF, CR,
  U+2028 and U+2029, the last two being three bytes each in a string of UTF-8 bytes.
\<close>

definition at_line_terminator :: "string \<Rightarrow> bool" where
  "at_line_terminator s =
     (prefix [CHR 0x0A] s \<or> prefix [CHR 0x0D] s \<or>
      prefix [CHR 0xE2, CHR 0x80, CHR 0xA8] s \<or> prefix [CHR 0xE2, CHR 0x80, CHR 0xA9] s)"

fun rest_of_line :: "string \<Rightarrow> string" where
  "rest_of_line [] = []"
| "rest_of_line (c # cs) = (if at_line_terminator (c # cs) then [] else c # rest_of_line cs)"

fun then_on_same_line :: "string \<Rightarrow> string \<Rightarrow> string \<Rightarrow> bool" where
  "then_on_same_line p q [] = (p = [] \<and> q = [])"
| "then_on_same_line p q (c # cs) =
     ((prefix p (c # cs) \<and> js_includes (rest_of_line (drop (length p) (c # cs))) q)
      \<or> then_on_same_line p q cs)"

definition MEETING_PATTERNS :: "((string \<Rightarrow> bool) \<times> string) list" where
  "MEETING_PATTERNS =
    [(\<lambda>url. js_includes url ''meet.google.com'', ''Meet''),
     (\<lambda>url. js_includes url ''zoom.us/j/'' \<or> js_includes url ''zoom.us/wc/'' \<or>
             js_includes url ''zoom.com/j/'' \<or> js_includes url ''zoom.com/wc/'', ''Zoom''),
     (\<lambda>url. then_on_same_line ''teams.microsoft.com'' ''meeting'' url, ''Teams'')]"

definition matches_meeting :: "string \<Rightarrow> bool" where
  "matches_meeting url = list_ex (\<lambda>p. fst p url) MEETING_PATTERNS"

definition onInstalled :: "background \<Rightarrow> background" where
  "onInstalled b =
     b\<lparr>background_console := background_console b @ [''SecureMeet: Extension installed''],
       storage_local := (storage_local b)(''meetings'' \<mapsto> SList []),
       badgeText := []\<rparr>"

text \<open>
  \<^verbatim>\<open>tabs.onUpdated\<close>, on the tab id, \<^verbatim>\<open>changeInfo.status\<close> and \<^verbatim>\<open>tab.url\<close> (either may be
  absent; \<^verbatim>\<open>!tab.url\<close> holds of an absent and of an empty URL).
\<close>

definition onUpdated :: "int \<Rightarrow> string option \<Rightarrow> string option \<Rightarrow> background \<Rightarrow> background" where
  "onUpdated tabId status url b =
     (case url of
        None \<Rightarrow> b
      | Some u \<Rightarrow>
          if status \<noteq> Some ''complete'' \<or> u = [] then b
          else if matches_meeting u
          then b\<lparr>activeMeetingTabId := Some tabId, badgeText := ''REC'',
                 badgeBackgroundColor := ''#4CAF50''\<rparr>
          else if Some tabId = activeMeetingTabId b
          then b\<lparr>activeMeetingTabId := None, badgeText := []\<rparr>
          else b)"

definition onRemoved :: "int \<Rightarrow> background \<Rightarrow> background" where
  "onRemoved tabId b =
     (if Some tabId = activeMeetingTabId b
      then b\<lparr>activeMeetingTabId := None, badgeText := []\<rparr>
      else b)"

text \<open>What a listener hands to \<^verbatim>\<open>sendResponse\<close>.\<close>

datatype response =
    Success bool
  | ActiveMeeting bool "int option"

text \<open>\<^verbatim>\<open>sender.tab?.id || null\<close>: no tab, or the falsy id 0, gives \<^verbatim>\<open>null\<close>.\<close>

fun tab_id_or_null :: "int option \<Rightarrow> int option" where
  "tab_id_or_null None = None"
| "tab_id_or_null (Some i) = (if i = 0 then None else Some i)"

text \<open>
  \<^verbatim>\<open>runtime.onMessage\<close>, on \<^verbatim>\<open>request.action\<close> and the sender's tab id: its three
  \<^verbatim>\<open>if\<close> statements in sequence, with the responses sent.
\<close>

definition onMessage :: "string \<Rightarrow> int option \<Rightarrow> background \<Rightarrow> response list \<times> background" where
  "onMessage action sender_tab b =
     (let (r1, b1) =
            (if action = ''meetingDetected''
             then ([Success True],
                   b\<lparr>activeMeetingTabId := tab_id_or_null sender_tab, badgeText := ''REC'',
                     badgeBackgroundColor := ''#4CAF50''\<rparr>)
             else ([], b));
          (r2, b2) =
            (if action = ''getActiveMeeting''
             then ([ActiveMeeting (activeMeetingTabId b1 \<noteq> None) (activeMeetingTabId b1)], b1)
             else ([], b1));
          (r3, b3) =
            (if action = ''startResultPolling''
             then ([Success True],
                   b2\<lparr>storage_local :=
                        (storage_local b2)(''summaryReady'' \<mapsto> SBool False,
                                           ''polling'' \<mapsto> SBool True),
                      badgeText := ''...'',
                      badgeBackgroundColor := ''#FF9800'',
                      alarms := (alarms b2)(''pollResults'' \<mapsto> 30)\<rparr>)
             else ([], b2))
      in (r1 @ r2 @ r3, b3))"

text \<open>
  \<^verbatim>\<open>alarms.onAlarm\<close>, on the alarm's name and the reply to its status request (\<open>None\<close>:
  the \<^verbatim>\<open>try\<close> block threw). The title's dash is the three bytes of U+2014.
\<close>

definition summary_ready_notification :: notification where
  "summary_ready_notification =
     \<lparr>notification_id = ''summaryReady'',
      notification_type = ''basic'',
      notification_iconUrl = ''icon48.png'',
      notification_title =
        ''SecureMeet '' @ [CHR 0xE2, CHR 0x80, CHR 0x94] @ '' Summary Ready'',
      notification_message =
        ''Your meeting summary is ready. Click the SecureMeet icon to view it.''\<rparr>"

definition onAlarm :: "string \<Rightarrow> status_reply option \<Rightarrow> background \<Rightarrow> background" where
  "onAlarm name reply b =
     (if name \<noteq> ''pollResults'' then b
      else case reply of
        None \<Rightarrow>
          b\<lparr>alarms := (alarms b)(''pollResults'' := None),
            storage_local := (storage_local b)(''polling'' \<mapsto> SBool False),
            badgeText := []\<rparr>
      | Some data \<Rightarrow>
          if has_summary data
          then b\<lparr>alarms := (alarms b)(''pollResults'' := None),
                 storage_local :=
                   (storage_local b)(''summaryReady'' \<mapsto> SBool True,
                                     ''polling'' \<mapsto> SBool False),
                 badgeText := ''NEW'',
                 badgeBackgroundColor := ''#4CAF50'',
                 notifications := notifications b @ [summary_ready_notification]\<rparr>
          else b)"

text \<open>
  What reaches the script: the browser's events, each delivered to its listener, and the
  re-evaluation of the script after an idle period. An alarm's listener does all its work
  after its \<^verbatim>\<open>await\<close>, so its event is the settling of its request.
\<close>

datatype event =
    Installed
  | Restarted
  | TabUpdated int "string option" "string option"
  | TabRemoved int
  | Message string "int option"
  | AlarmFired string "status_reply option"

fun deliver :: "event \<Rightarrow> background \<Rightarrow> background" where
  "deliver Installed b = onInstalled b"
| "deliver Restarted b = script_loads b"
| "deliver (TabUpdated tabId status url) b = onUpdated tabId status url b"
| "deliver (TabRemoved tabId) b = onRemoved tabId b"
| "deliver (Message action sender_tab) b = snd (onMessage action sender_tab b)"
| "deliver (AlarmFired name reply) b = onAlarm name reply b"

definition deliver_all :: "event list \<Rightarrow> background \<Rightarrow> background" where
  "deliver_all events b = foldl (\<lambda>s e. deliver e s) b events"

subsection \<open>popup.js: showing and copying the summary\<close>

text \<open>
  The replies of \<^verbatim>\<open>/summary\<close> and \<^verbatim>\<open>/transcript\<close>. Both functions treat an absent
  list like an empty one and an absent summary text like the empty text (\<^verbatim>\<open>?.length > 0\<close>,
  \<^verbatim>\<open>|| ''\<close>), so the record has them all; the title is optional. The transcript
  enters only through \<^verbatim>\<open>full_text.substring(0, 500)\<close>, which counts UTF-16 units, and
  \<^verbatim>\<open>duration?.toFixed(0)\<close>, so the record keeps those two texts (\<open>None\<close> when the
  number is absent).
\<close>

record summary_data =
  ready :: bool
  executive_summary :: string
  key_discussion_points :: "string list"
  action_items :: "string list"
  decisions_made :: "string list"
  next_steps :: "string list"
  model_used :: string
  meeting_title :: "string option"

record transcript_data =
  transcript_ready :: bool
  full_text_head :: string
  duration_fixed :: "string option"

text \<open>\<^verbatim>\<open>a || b\<close> on a possibly absent string: absent and empty are falsy.\<close>

fun or_else :: "string option \<Rightarrow> string \<Rightarrow> string" where
  "or_else None b = b"
| "or_else (Some a) b = (if a = [] then b else a)"

text \<open>
  The text \<^verbatim>\<open>copySummary\<close> builds, one \<^verbatim>\<open>text += ...\<close> after the other; a
  \<^verbatim>\<open>forEach\<close> that appends is a left fold.
\<close>

definition copySummary_text :: "summary_data \<Rightarrow> string" where
  "copySummary_text data =
     (let text0 = ''# '' @ or_else (meeting_title data) ''Meeting Summary'' @ ''\<newline>\<newline>'';
          text1 = text0 @ ''## Summary\<newline>'' @ executive_summary data @ ''\<newline>\<newline>'';
          text2 =
            (if length (key_discussion_points data) > 0
             then foldl (\<lambda>text p. text @ ''- '' @ p @ ''\<newline>'')
                    (text1 @ ''## Key Points\<newline>'') (key_discussion_points data) @ ''\<newline>''
             else text1);
          text3 =
            (if length (action_items data) > 0
             then foldl (\<lambda>text a. text @ ''- [ ] '' @ a @ ''\<newline>'')
                    (text2 @ ''## Action Items\<newline>'') (action_items data) @ ''\<newline>''
             else text2);
          text4 =
            (if length (decisions_made data) > 0
             then foldl (\<lambda>text d. text @ ''- '' @ d @ ''\<newline>'')
                    (text3 @ ''## Decisions\<newline>'') (decisions_made data) @ ''\<newline>''
             else text3);
          text5 =
            (if length (next_steps data) > 0
             then foldl (\<lambda>text s. text @ ''- '' @ s @ ''\<newline>'')
                    (text4 @ ''## Next Steps\<newline>'') (next_steps data)
             else text4)
      in text5)"

text \<open>
  \<^verbatim>\<open>copySummary\<close> on the reply to its request (\<open>None\<close>: the request threw) and on
  whether the clipboard accepts the text: what reaches the clipboard, and the status line.
\<close>

record copy_result =
  clipboard :: "string option"
  copy_status_text :: string
  copy_status_class :: string

definition copySummary :: "summary_data option \<Rightarrow> bool \<Rightarrow> copy_result" where
  "copySummary reply clipboard_ok =
     (case reply of
        None \<Rightarrow>
          \<lparr>clipboard = None, copy_status_text = ''Failed to copy'',
           copy_status_class = ''status-msg error''\<rparr>
      | Some data \<Rightarrow>
          if \<not> ready data
          then \<lparr>clipboard = None, copy_status_text = ''No summary to copy'',
                copy_status_class = ''status-msg error''\<rparr>
          else if clipboard_ok
          then \<lparr>clipboard = Some (copySummary_text data),
                copy_status_text = ''Copied to clipboard!'',
                copy_status_class = ''status-msg''\<rparr>
          else \<lparr>clipboard = None, copy_status_text = ''Failed to copy'',
                copy_status_class = ''status-msg error''\<rparr>)"

text \<open>
  A result card is the list of the children of its \<^verbatim>\<open>div\<close>: the heading, then a
  paragraph when the text is truthy, then a list when it has items.
\<close>

datatype node = H3 string | Para string | UList "string list"

type_synonym card = "node list"

definition createResultCard :: "string \<Rightarrow> string option \<Rightarrow> string list option \<Rightarrow> card" where
  "createResultCard title text list =
     [H3 title]
     @ (case text of None \<Rightarrow> [] | Some t \<Rightarrow> if t = [] then [] else [Para t])
     @ (case list of None \<Rightarrow> [] | Some items \<Rightarrow> if length items > 0 then [UList items] else [])"

record results_ui =
  resultsArea :: "card list"
  resultsSection_hidden :: bool
  results_status_text :: string
  results_status_class :: string
  console_errors :: nat

text \<open>
  \<^verbatim>\<open>fetchResults\<close> on the replies to its two requests; \<^verbatim>\<open>Promise.all\<close> rejects when
  either throws, before anything is touched.
\<close>

definition fetchResults ::
  "transcript_data option \<Rightarrow> summary_data option \<Rightarrow> results_ui \<Rightarrow> results_ui" where
  "fetchResults transcript_reply summary_reply ui =
     (case (transcript_reply, summary_reply) of
        (Some transcriptData, Some summaryData) \<Rightarrow>
          let ui0 = ui\<lparr>resultsArea := []\<rparr> in
          if ready summaryData then
            let ui1 = ui0\<lparr>resultsSection_hidden := False\<rparr>;
                ui2 = (if executive_summary summaryData \<noteq> []
                       then ui1\<lparr>resultsArea := resultsArea ui1 @
                              [createResultCard ''Summary''
                                 (Some (executive_summary summaryData)) None]\<rparr>
                       else ui1);
                ui3 = (if length (key_discussion_points summaryData) > 0
                       then ui2\<lparr>resultsArea := resultsArea ui2 @
                              [createResultCard ''Key Points'' None
                                 (Some (key_discussion_points summaryData))]\<rparr>
                       else ui2);
                ui4 = (if length (action_items summaryData) > 0
                       then ui3\<lparr>resultsArea := resultsArea ui3 @
                              [createResultCard ''Action Items'' None
                                 (Some (action_items summaryData))]\<rparr>
                       else ui3);
                ui5 = (if length (decisions_made summaryData) > 0
                       then ui4\<lparr>resultsArea := resultsArea ui4 @
                              [createResultCard ''Decisions'' None
                                 (Some (decisions_made summaryData))]\<rparr>
                       else ui4);
                ui6 = (if length (next_steps summaryData) > 0
                       then ui5\<lparr>resultsArea := resultsArea ui5 @
                              [createResultCard ''Next Steps'' None
                                 (Some (next_steps summaryData))]\<rparr>
                       else ui5)
            in ui6\<lparr>results_status_text :=
                      ''Summary ready ('' @ or_else (Some (model_used summaryData)) ''local'' @ '')'',
                    results_status_class := ''status-msg''\<rparr>
          else if transcript_ready transcriptData then
            let ui1 = ui0\<lparr>resultsSection_hidden := False\<rparr>;
                preview = full_text_head transcriptData @ ''...'';
                card = createResultCard
                         (''Transcript ('' @ or_else (duration_fixed transcriptData) ''?'' @ ''s)'')
                         (Some preview) None
            in ui1\<lparr>resultsArea := resultsArea ui1 @ [card],
                    results_status_text := ''Transcript ready, waiting for summary...'',
                    results_status_class := ''status-msg processing''\<rparr>
          else ui0
      | _ \<Rightarrow> ui\<lparr>console_errors := console_errors ui + 1\<rparr>)"

text \<open>
  The order the specification asks of an exported summary, in its own words: the sections
  Summary, Key Points, Action Items, Decisions, Next Steps, a list section only when its
  list has an entry, each action item a checkable entry.
\<close>

datatype summary_section = Summary | KeyPoints | ActionItems | Decisions | NextSteps

fun section_heading :: "summary_section \<Rightarrow> string" where
  "section_heading Summary = ''Summary''"
| "section_heading KeyPoints = ''Key Points''"
| "section_heading ActionItems = ''Action Items''"
| "section_heading Decisions = ''Decisions''"
| "section_heading NextSteps = ''Next Steps''"

fun section_items :: "summary_data \<Rightarrow> summary_section \<Rightarrow> string list" where
  "section_items data Summary = []"
| "section_items data KeyPoints = key_discussion_points data"
| "section_items data ActionItems = action_items data"
| "section_items data Decisions = decisions_made data"
| "section_items data NextSteps = next_steps data"

text \<open>A list entry of the flat document: a checkbox for an action item, a dash otherwise.\<close>

fun list_entry :: "summary_section \<Rightarrow> string \<Rightarrow> string" where
  "list_entry ActionItems item = ''- [ ] '' @ item @ ''\<newline>''"
| "list_entry _ item = ''- '' @ item @ ''\<newline>''"

text \<open>
  A section of the flat document: its heading line, then the summary text or the list
  entries, then a blank line (none after the last section).
\<close>

fun exported_section :: "summary_data \<Rightarrow> summary_section \<Rightarrow> string" where
  "exported_section data Summary =
     ''## Summary\<newline>'' @ executive_summary data @ ''\<newline>\<newline>''"
| "exported_section data NextSteps =
     ''## Next Steps\<newline>'' @ concat (map (list_entry NextSteps) (next_steps data))"
| "exported_section data s =
     ''## '' @ section_heading s @ ''\<newline>'' @
     concat (map (list_entry s) (section_items data s)) @ ''\<newline>''"

text \<open>Which sections appear: in the document, and among the cards.\<close>

fun in_document :: "summary_data \<Rightarrow> summary_section \<Rightarrow> bool" where
  "in_document data Summary = True"
| "in_document data s = (section_items data s \<noteq> [])"

fun in_cards :: "summary_data \<Rightarrow> summary_section \<Rightarrow> bool" where
  "in_cards data Summary = (executive_summary data \<noteq> [])"
| "in_cards data s = (section_items data s \<noteq> [])"

fun section_card :: "summary_data \<Rightarrow> summary_section \<Rightarrow> card" where
  "section_card data Summary = [H3 ''Summary'', Para (executive_summary data)]"
| "section_card data s = [H3 (section_heading s), UList (section_items data s)]"

text \<open>
  Reading the flat document back: its lines (as \<^verbatim>\<open>text.split('\n')\<close> gives them), and
  the headings among them, the lines that start with \<^verbatim>\<open>## \<close>.
\<close>

fun document_lines :: "string \<Rightarrow> string list" where
  "document_lines [] = [[]]"
| "document_lines (c # cs) =
     (if c = CHR 0x0A then [] # document_lines cs
      else (case document_lines cs of [] \<Rightarrow> [[c]] | l # ls \<Rightarrow> (c # l) # ls))"

definition document_headings :: "string \<Rightarrow> string list" where
  "document_headings text = map (drop 3) (filter (prefix ''## '') (document_lines text))"

text \<open>A summary whose texts are single lines, none of them posing as a heading.\<close>

definition single_line :: "string \<Rightarrow> bool" where
  "single_line s = (CHR 0x0A \<notin> set s)"

definition plain_summary :: "summary_data \<Rightarrow> bool" where
  "plain_summary data =
     (single_line (or_else (meeting_title data) ''Meeting Summary'') \<and>
      single_line (executive_summary data) \<and>
      \<not> prefix ''## '' (executive_summary data) \<and>
      list_all single_line (key_discussion_points data) \<and>
      list_all single_line (action_items data) \<and>
      list_all single_line (decisions_made data) \<and>
      list_all single_line (next_steps data))"

text \<open>A summary, a transcript and an empty results area to run the functions on.\<close>

definition example_summary :: summary_data where
  "example_summary =
     \<lparr>ready = True, executive_summary = ''We met.'',
      key_discussion_points = [''a'', ''b''], action_items = [''ship it''],
      decisions_made = [], next_steps = [''x''], model_used = ''local'',
      meeting_title = None\<rparr>"

definition example_transcript :: transcript_data where
  "example_transcript =
     \<lparr>transcript_ready = True, full_text_head = ''We met.'', duration_fixed = Some ''12''\<rparr>"

definition empty_results :: results_ui where
  "empty_results =
     \<lparr>resultsArea = [], resultsSection_hidden = True, results_status_text = [],
      results_status_class = [], console_errors = 0\<rparr>"

subsection \<open>popup.js: meeting detection\<close>

text \<open>
  \<^verbatim>\<open>detectMeeting\<close>, on the URL of the active tab (\<open>None\<close>: no tab or no URL, read as
  \<^verbatim>\<open>''\<close>): the badge it shows and the message it sends to the background script. The popup
  is not a tab, so the message arrives there with no \<^verbatim>\<open>sender.tab\<close>.
\<close>

record meeting_badge =
  meetingStatus_text :: string
  meetingStatus_class :: string
  notified :: "runtime_message option"

fun detect_in_popup :: "(string \<times> string) list \<Rightarrow> string \<Rightarrow> meeting_badge" where
  "detect_in_popup [] url =
     \<lparr>meetingStatus_text = ''No meeting detected (record anytime)'',
      meetingStatus_class = ''meeting-badge meeting-none'',
      notified = None\<rparr>"
| "detect_in_popup ((pattern, name) # ms) url =
     (if js_includes url pattern
      then \<lparr>meetingStatus_text = name @ '' meeting detected'',
            meetingStatus_class = ''meeting-badge meeting-detected'',
            notified = Some \<lparr>msg_action = ''meetingDetected'', msg_platform = Some name,
                              msg_url = None\<rparr>\<rparr>
      else detect_in_popup ms url)"

definition detectMeeting :: "string option \<Rightarrow> meeting_badge" where
  "detectMeeting tab_url = detect_in_popup meetings (case tab_url of None \<Rightarrow> [] | Some u \<Rightarrow> u)"

subsection \<open>The session orchestrator\<close>

text \<open>
  Modelled from the spec: the desktop application's session state machine, audio capture
  service and transcription worker bridge (\<^verbatim>\<open>src/main.py\<close>, \<^verbatim>\<open>audio_capture.py\<close>,
  \<^verbatim>\<open>transcription.py\<close>, \<^verbatim>\<open>local_server.py\<close>) are not among the sources; the extension
  above is their only caller here. Every definition of this subsection follows sections 3,
  4.1, 4.3, 6 and 7 of the specification. What the operating system decides (whether a
  device opens, whether capture finalizes, whether the worker spawns, how a submission
  ends) is an argument of the operation it decides. First the data model of section 3.
\<close>

datatype state = Idle | Recording | Stopping | Transcribing | Summarizing | Ready | Failed

datatype error =
    DeviceError
  | CaptureError
  | WorkerSpawnError
  | WorkerCrashError
  | WorkerTimeoutError
  | SummarizationError
  | StateConflictError

record TranscriptResult =
  transcript_text :: string
  transcript_seconds :: nat
  segments :: "(nat \<times> nat \<times> string) list option"

record SummaryResult =
  summary_text :: string
  key_points :: "string list"
  actions :: "string list"
  decisions :: "string list"
  steps :: "string list"
  model_identifier :: string
  title :: "string option"

record Session =
  session_id :: nat
  session_state :: state
  device_id :: "nat option"
  start_time :: nat
  duration :: nat
  audio_level :: nat
  transcript :: "TranscriptResult option"
  summary :: "SummaryResult option"
  session_error :: "error option"

datatype lifecycle = Starting | WorkerReady | Busy | Crashed | Exited

record WorkerHandle =
  process_id :: nat
  channel :: nat
  lifecycle_status :: lifecycle

text \<open>
  Modelled from the spec: the orchestrator's state, absent from the sources. The one live
  session (absent before the first start), the bridge's
  worker handle (created on first need), and the counters that name the next session and
  the next process.
\<close>

record orchestrator =
  session :: "Session option"
  next_session_id :: nat
  worker :: "WorkerHandle option"
  next_process_id :: nat

definition orchestrator_start :: orchestrator where
  "orchestrator_start =
     \<lparr>session = None, next_session_id = 0, worker = None, next_process_id = 0\<rparr>"

text \<open>
  Modelled from the spec: the current state, absent from the sources. Initial state
  \<open>Idle\<close>: the state of an orchestrator with no session.
\<close>

definition current_state :: "orchestrator \<Rightarrow> state" where
  "current_state m = (case session m of None \<Rightarrow> Idle | Some s \<Rightarrow> session_state s)"

definition set_state :: "state \<Rightarrow> orchestrator \<Rightarrow> orchestrator" where
  "set_state st m = m\<lparr>session := map_option (\<lambda>s. s\<lparr>session_state := st\<rparr>) (session m)\<rparr>"

text \<open>
  Modelled from the spec: failure of a stage, absent from the sources. Any callback
  reporting failure stores the error and forces state \<open>Failed\<close>.
\<close>

definition fail_session :: "error \<Rightarrow> orchestrator \<Rightarrow> orchestrator" where
  "fail_session e m =
     m\<lparr>session :=
         map_option (\<lambda>s. s\<lparr>session_state := Failed, session_error := Some e\<rparr>) (session m)\<rparr>"

text \<open>
  Modelled from the spec: \<open>start\<close> of the session state machine, absent from the sources.
  \<open>start(device_id?)\<close>: valid only from \<open>Idle\<close>, \<open>Ready\<close>, \<open>Failed\<close>; allocates a new
  session (prior transcript, summary and error cleared), delegates to the capture service
  (\<open>device_opens\<close>: whether a device could be opened; if not, \<open>DeviceError\<close>, terminal for
  the session), transitions to \<open>Recording\<close>. From the four other states it fails with
  \<open>StateConflictError\<close>.
\<close>

definition start :: "nat option \<Rightarrow> bool \<Rightarrow> nat \<Rightarrow> orchestrator \<Rightarrow> (error + unit) \<times> orchestrator" where
  "start dev device_opens now m =
     (if current_state m \<in> {Recording, Stopping, Transcribing, Summarizing}
      then (Inl StateConflictError, m)
      else
        let fresh = \<lparr>session_id = next_session_id m, session_state = Idle, device_id = dev,
                     start_time = now, duration = 0, audio_level = 0, transcript = None,
                     summary = None, session_error = None\<rparr>;
            m1 = m\<lparr>session := Some fresh, next_session_id := Suc (next_session_id m)\<rparr>
        in if device_opens then (Inr (), set_state Recording m1)
           else (Inl DeviceError, fail_session DeviceError m1))"

text \<open>
  Modelled from the spec: \<open>stop\<close> of the session state machine, absent from the sources.
  \<open>stop()\<close>: valid only from \<open>Recording\<close>; transitions to \<open>Stopping\<close>, finalizes capture
  (\<open>finalized\<close>: the measured duration, or none when the stream failed), transitions to
  \<open>Transcribing\<close>; the pipeline is driven on by the callbacks below.
\<close>

definition stop :: "nat option \<Rightarrow> orchestrator \<Rightarrow> (error + unit) \<times> orchestrator" where
  "stop finalized m =
     (if current_state m \<noteq> Recording then (Inl StateConflictError, m)
      else
        let m1 = set_state Stopping m in
        case finalized of
          None \<Rightarrow> (Inl CaptureError, fail_session CaptureError m1)
        | Some seconds \<Rightarrow>
            (Inr (),
             set_state Transcribing
               (m1\<lparr>session := map_option (\<lambda>s. s\<lparr>duration := seconds\<rparr>) (session m1)\<rparr>)))"

text \<open>
  Modelled from the spec: the worker bridge, absent from the sources. How a submission ends is the worker's doing: a response, a non-zero exit, a
  broken channel, or no answer within the window.
\<close>

datatype submission_end =
    Responds TranscriptResult
  | ExitsNonZero
  | ChannelBroken
  | NoAnswerInTime

text \<open>
  Modelled from the spec: \<open>submit\<close> of the worker bridge, absent from the sources.
  \<open>submit(audio_buffer)\<close>: spawns the worker if it is not already \<open>Ready\<close> (a fresh
  process; \<open>WorkerSpawnError\<close> when it cannot start), hands it the audio and awaits the one
  response. A crash marks the handle \<open>Crashed\<close>; a timeout terminates the process.
\<close>

definition ready_worker :: "orchestrator \<Rightarrow> bool" where
  "ready_worker m =
     (case worker m of None \<Rightarrow> False | Some h \<Rightarrow> lifecycle_status h = WorkerReady)"

definition spawn :: "orchestrator \<Rightarrow> orchestrator" where
  "spawn m =
     m\<lparr>worker := Some \<lparr>process_id = next_process_id m, channel = next_process_id m,
                         lifecycle_status = WorkerReady\<rparr>,
       next_process_id := Suc (next_process_id m)\<rparr>"

definition mark_worker :: "lifecycle \<Rightarrow> orchestrator \<Rightarrow> orchestrator" where
  "mark_worker st m = m\<lparr>worker := map_option (\<lambda>h. h\<lparr>lifecycle_status := st\<rparr>) (worker m)\<rparr>"

definition submit ::
  "bool \<Rightarrow> submission_end \<Rightarrow> orchestrator \<Rightarrow> (error + TranscriptResult) \<times> orchestrator" where
  "submit spawns ending m =
     (if \<not> ready_worker m \<and> \<not> spawns then (Inl WorkerSpawnError, m)
      else
        let m1 = (if ready_worker m then m else spawn m);
            m2 = mark_worker Busy m1
        in case ending of
             Responds t \<Rightarrow> (Inr t, mark_worker WorkerReady m2)
           | ExitsNonZero \<Rightarrow> (Inl WorkerCrashError, mark_worker Crashed m2)
           | ChannelBroken \<Rightarrow> (Inl WorkerCrashError, mark_worker Crashed m2)
           | NoAnswerInTime \<Rightarrow> (Inl WorkerTimeoutError, mark_worker Exited m2))"

text \<open>
  Modelled from the spec: the completion callbacks of the session state machine, absent
  from the sources. Capture finalized: the buffer is submitted to the bridge in
  state \<open>Transcribing\<close>; on success the transcript is stored and the state is
  \<open>Summarizing\<close>, on failure the error is stored and the state is \<open>Failed\<close>.
\<close>

definition capture_finalized ::
  "bool \<Rightarrow> submission_end \<Rightarrow> orchestrator \<Rightarrow> (error + TranscriptResult) \<times> orchestrator" where
  "capture_finalized spawns ending m =
     (if current_state m \<noteq> Transcribing then (Inl StateConflictError, m)
      else
        case submit spawns ending m of
          (Inl e, m1) \<Rightarrow> (Inl e, fail_session e m1)
        | (Inr t, m1) \<Rightarrow>
            (Inr t,
             set_state Summarizing
               (m1\<lparr>session := map_option (\<lambda>s. s\<lparr>transcript := Some t\<rparr>) (session m1)\<rparr>)))"

text \<open>
  Modelled from the spec: the last callback, absent from the sources. Summarization
  complete: the result is stored and the state is \<open>Ready\<close>.
\<close>

definition summarization_complete :: "SummaryResult \<Rightarrow> orchestrator \<Rightarrow> orchestrator" where
  "summarization_complete r m =
     (if current_state m \<noteq> Summarizing then m
      else set_state Ready
             (m\<lparr>session := map_option (\<lambda>s. s\<lparr>summary := Some r\<rparr>) (session m)\<rparr>))"

text \<open>
  Modelled from the spec: the status endpoint of the local control API, absent from the
  sources. The read-only projection of the session that \<^verbatim>\<open>GET /status\<close> answers with.
\<close>

record StatusSnapshot =
  status_recording :: bool
  status_audio_level :: nat
  status_duration :: nat
  status_has_transcript :: bool
  status_has_summary :: bool
  status_error :: "error option"

definition status :: "orchestrator \<Rightarrow> StatusSnapshot" where
  "status m =
     (case session m of
        None \<Rightarrow>
          \<lparr>status_recording = False, status_audio_level = 0, status_duration = 0,
           status_has_transcript = False, status_has_summary = False, status_error = None\<rparr>
      | Some s \<Rightarrow>
          \<lparr>status_recording = (session_state s = Recording),
           status_audio_level = audio_level s,
           status_duration = duration s,
           status_has_transcript = (transcript s \<noteq> None),
           status_has_summary = (summary s \<noteq> None),
           status_error = session_error s\<rparr>)"

text \<open>
  Modelled from the spec: a fresh process per spawn. Process identifiers are handed out in
  order: a handle's is below the next one.
\<close>

definition known_worker :: "orchestrator \<Rightarrow> bool" where
  "known_worker m =
     (case worker m of None \<Rightarrow> True | Some h \<Rightarrow> process_id h < next_process_id m)"

text \<open>A first session, started and stopped after 60 seconds, about to be transcribed.\<close>

definition transcribing_session :: orchestrator where
  "transcribing_session = snd (stop (Some 60) (snd (start None True 0 orchestrator_start)))"

section \<open>Properties\<close>

subsection \<open>content.js runs once per page\<close>

lemma content_script_sets_guard: "securemeet_loaded (content_script href w)"
  by (simp add: content_script_def Let_def split: option.split)

lemma content_script_guarded: "securemeet_loaded w \<Longrightarrow> content_script href w = w"
  by (simp add: content_script_def)

lemma inject_all_guarded: "securemeet_loaded w \<Longrightarrow> inject_all hrefs w = w"
  by (induction hrefs arbitrary: w) (simp_all add: inject_all_def content_script_guarded)

text \<open>
  C9. Executing the content script again in the same page changes nothing: the first
  execution leaves the guard set, and any number of later executions (whatever
  \<^verbatim>\<open>location.href\<close> has become) return the page as the first one left it: no further
  \<^verbatim>\<open>meetingDetected\<close> message, no further listener. So the state after
  \<open>1 + length hrefs\<close> executions is the state after one.
\<close>

theorem content_script_idempotent:
  "securemeet_loaded (content_script href w) \<and>
   inject_all (href # hrefs) w = content_script href w \<and>
   sent_messages (inject_all (href # hrefs) w) = sent_messages (content_script href w) \<and>
   message_listeners (inject_all (href # hrefs) w) = message_listeners (content_script href w)"
proof -
  have g: "securemeet_loaded (content_script href w)"
    by (rule content_script_sets_guard)
  have "inject_all (href # hrefs) w = inject_all hrefs (content_script href w)"
    by (simp add: inject_all_def)
  also have "\<dots> = content_script href w"
    using g by (rule inject_all_guarded)
  finally show ?thesis
    using g by simp
qed

subsection \<open>Every request goes to the loopback port\<close>

lemma authority_of_api_url:
  "url_authority (API_BASE @ CHR ''/'' # path) = Some ''127.0.0.1:8765''"
  by (simp add: url_authority_def API_BASE_def)

lemma host_of_api_url: "url_host (API_BASE @ CHR ''/'' # path) = Some ''127.0.0.1''"
  by (simp add: url_host_def authority_of_api_url after_userinfo_def)

lemma port_of_api_url: "url_port (API_BASE @ CHR ''/'' # path) = Some ''8765''"
  by (simp add: url_port_def authority_of_api_url after_userinfo_def)

text \<open>
  C5. Every HTTP request the extension issues (the popup's status polls, device listing,
  start and stop posts, transcript and summary fetches, and the background script's
  alarm-driven status check) is addressed to host 127.0.0.1, port 8765.
\<close>

theorem every_request_targets_loopback:
  "url_host (req_url (issued_request site)) = Some ''127.0.0.1'' \<and>
   url_port (req_url (issued_request site)) = Some ''8765''"
proof (cases site)
  case BackgroundAlarm
  have "req_url (issued_request BackgroundAlarm) = API_BASE @ CHR ''/'' # ''status''"
    by (simp add: API_BASE_def)
  with BackgroundAlarm show ?thesis
    by (simp only: host_of_api_url port_of_api_url simp_thms)
qed (simp_all add: apiGet_def apiPost_def host_of_api_url port_of_api_url)

subsection \<open>Polling for results\<close>

lemma poll_run_append: "poll_run (xs @ ys) s = poll_run ys (poll_run xs s)"
  by (simp add: poll_run_def)

lemma answered_in_turn_Suc:
  "answered_in_turn srv (Suc k) = answered_in_turn srv k @ [Tick, Settled (srv k)]"
  by (simp add: answered_in_turn_def)

lemma round_stopped:
  "\<not> resultPoll_active s \<Longrightarrow> in_flight s = 0 \<Longrightarrow> poll_run [Tick, Settled reply] s = s"
  by (simp add: poll_run_def)

lemma round_summary:
  "resultPoll_active s \<Longrightarrow> in_flight s = 0 \<Longrightarrow> summary_seen reply \<Longrightarrow>
   poll_run [Tick, Settled reply] s =
     s\<lparr>attempts := Suc (attempts s), resultPoll_active := False,
       statusMsg_text := ''Summary ready!'', statusMsg_class := ''status-msg'',
       fetchResults_calls := Suc (fetchResults_calls s)\<rparr>"
  by (auto simp: poll_run_def callback_starts_def callback_resumes_def summary_seen_def Let_def
      split: option.splits)

lemma round_last:
  "resultPoll_active s \<Longrightarrow> in_flight s = 0 \<Longrightarrow> \<not> summary_seen reply \<Longrightarrow>
   maxAttempts \<le> Suc (attempts s) \<Longrightarrow>
   poll_run [Tick, Settled reply] s =
     s\<lparr>attempts := Suc (attempts s), resultPoll_active := False,
       statusMsg_text := no_result_message, statusMsg_class := ''status-msg error''\<rparr>"
  by (auto simp: poll_run_def callback_starts_def callback_resumes_def summary_seen_def Let_def
      give_up_check_def split: option.splits)

lemma round_goes_on:
  "resultPoll_active s \<Longrightarrow> in_flight s = 0 \<Longrightarrow> \<not> summary_seen reply \<Longrightarrow>
   Suc (attempts s) < maxAttempts \<Longrightarrow>
   resultPoll_active (poll_run [Tick, Settled reply] s) \<and>
   in_flight (poll_run [Tick, Settled reply] s) = 0 \<and>
   attempts (poll_run [Tick, Settled reply] s) = Suc (attempts s) \<and>
   fetchResults_calls (poll_run [Tick, Settled reply] s) = fetchResults_calls s"
  by (auto simp: poll_run_def callback_starts_def callback_resumes_def summary_seen_def Let_def
      give_up_check_def split: option.splits)

lemma find_snoc:
  "find P (xs @ [x]) =
     (case find P xs of Some i \<Rightarrow> Some i | None \<Rightarrow> if P x then Some x else None)"
  by (induction xs) simp_all

lemma find_upt_snoc:
  "find P [0..<Suc k] =
     (case find P [0..<k] of Some i \<Rightarrow> Some i | None \<Rightarrow> if P k then Some k else None)"
  by (simp add: find_snoc)

lemma answered_in_turn_state:
  "in_turn_state srv k (poll_run (answered_in_turn srv k) (pollForResults text cls))"
proof (induction k)
  case 0
  show ?case
    by (simp add: in_turn_state_def answered_in_turn_def poll_run_def pollForResults_def
        maxAttempts_def)
next
  case (Suc k)
  let ?s = "poll_run (answered_in_turn srv k) (pollForResults text cls)"
  let ?s' = "poll_run [Tick, Settled (srv k)] ?s"
  have run: "poll_run (answered_in_turn srv (Suc k)) (pollForResults text cls) = ?s'"
    by (simp add: answered_in_turn_Suc poll_run_append)
  have fl: "in_flight ?s = 0"
    using Suc.IH by (simp add: in_turn_state_def)
  show ?case
  proof (cases "k < maxAttempts")
    case False
    then have m: "min k maxAttempts = maxAttempts" "min (Suc k) maxAttempts = maxAttempts"
      by simp_all
    have "\<not> resultPoll_active ?s"
      using Suc.IH False by (auto simp: in_turn_state_def m split: option.splits)
    then have "?s' = ?s" using fl by (rule round_stopped)
    moreover have "\<not> Suc k < maxAttempts" using False by simp
    ultimately show ?thesis
      unfolding run using Suc.IH False
      by (auto simp: in_turn_state_def m split: option.splits)
  next
    case True
    then have m: "min k maxAttempts = k" "min (Suc k) maxAttempts = Suc k"
      by simp_all
    show ?thesis
    proof (cases "find (\<lambda>i. summary_seen (srv i)) [0..<k]")
      case (Some i)
      then have "\<not> resultPoll_active ?s"
        using Suc.IH by (simp add: in_turn_state_def m)
      then have "?s' = ?s" using fl by (rule round_stopped)
      then show ?thesis
        unfolding run using Suc.IH Some
        by (simp add: in_turn_state_def m find_upt_snoc del: upt_Suc)
    next
      case None
      then have st: "resultPoll_active ?s" "attempts ?s = k" "fetchResults_calls ?s = 0"
        using Suc.IH True by (simp_all add: in_turn_state_def m)
      show ?thesis
      proof (cases "summary_seen (srv k)")
        case True
        then show ?thesis
          unfolding run using None st fl
          by (simp add: in_turn_state_def m find_upt_snoc round_summary del: upt_Suc)
      next
        case no: False
        show ?thesis
        proof (cases "Suc k < maxAttempts")
          case True
          then show ?thesis
            unfolding run
            using None no round_goes_on [OF st(1) fl no, unfolded st(2), OF True] st(3)
            by (simp add: in_turn_state_def m find_upt_snoc del: upt_Suc)
        next
          case False
          have f: "find (\<lambda>i. summary_seen (srv i)) [0..<min (Suc k) maxAttempts] = None"
            using None no by (simp add: m find_upt_snoc del: upt_Suc)
          have ge: "maxAttempts \<le> Suc (attempts ?s)" using False st(2) by simp
          have att: "Suc (attempts ?s) = maxAttempts"
            using False \<open>k < maxAttempts\<close> st(2) by simp
          have "?s' = ?s\<lparr>attempts := Suc (attempts ?s), resultPoll_active := False,
              statusMsg_text := no_result_message, statusMsg_class := ''status-msg error''\<rparr>"
            by (rule round_last [OF st(1) fl no ge])
          then have "in_flight ?s' = 0" "fetchResults_calls ?s' = 0"
            "\<not> resultPoll_active ?s'" "attempts ?s' = maxAttempts"
            "statusMsg_text ?s' = no_result_message"
            "statusMsg_class ?s' = ''status-msg error''"
            using fl st(3) att by simp_all
          then show ?thesis
            unfolding run in_turn_state_def f using False by simp
        qed
      qed
    qed
  qed
qed

lemma stopped_stays:
  "\<not> resultPoll_active s \<Longrightarrow>
   \<not> resultPoll_active (poll_run events s) \<and> attempts (poll_run events s) = attempts s"
proof (induction events arbitrary: s)
  case Nil
  then show ?case by (simp add: poll_run_def)
next
  case (Cons e events)
  have "\<not> resultPoll_active (poll_step e s) \<and> attempts (poll_step e s) = attempts s"
    using Cons.prems
    by (cases e)
       (auto simp: callback_resumes_def give_up_check_def Let_def split: option.splits)
  then show ?case
    using Cons.IH [of "poll_step e s"] by (simp add: poll_run_def)
qed

lemma unanswered_ticks:
  "resultPoll_active s \<Longrightarrow>
   poll_run (replicate n Tick) s = s\<lparr>attempts := attempts s + n, in_flight := in_flight s + n\<rparr>"
proof (induction n arbitrary: s)
  case 0
  then show ?case by (simp add: poll_run_def)
next
  case (Suc n)
  have "poll_run (replicate (Suc n) Tick) s = poll_run (replicate n Tick) (callback_starts s)"
    using Suc.prems by (simp add: poll_run_def)
  also have "\<dots> = (callback_starts s)\<lparr>attempts := attempts (callback_starts s) + n,
      in_flight := in_flight (callback_starts s) + n\<rparr>"
    using Suc.prems by (intro Suc.IH) (simp add: callback_starts_def)
  finally show ?case by (simp add: callback_starts_def)
qed

lemma settled_with_summary:
  "summary_seen reply \<Longrightarrow> 0 < in_flight s \<Longrightarrow>
   \<not> resultPoll_active (poll_step (Settled reply) s) \<and>
   statusMsg_text (poll_step (Settled reply) s) = ''Summary ready!'' \<and>
   fetchResults_calls (poll_step (Settled reply) s) = Suc (fetchResults_calls s)"
  by (auto simp: callback_resumes_def summary_seen_def Let_def split: option.splits)

lemma settled_at_bound:
  "\<not> summary_seen reply \<Longrightarrow> 0 < in_flight s \<Longrightarrow> maxAttempts \<le> attempts s \<Longrightarrow>
   \<not> resultPoll_active (poll_step (Settled reply) s) \<and>
   statusMsg_text (poll_step (Settled reply) s) = no_result_message \<and>
   statusMsg_class (poll_step (Settled reply) s) = ''status-msg error''"
  by (auto simp: callback_resumes_def summary_seen_def give_up_check_def Let_def
      split: option.splits)

lemma find_upt_less: "find P [a..<n] = Some k \<Longrightarrow> k < n"
  by (auto simp: find_Some_iff)

lemma late_reply:
  assumes "resultPoll_active s" "in_flight s = 0" "attempts s = 148"
    "fetchResults_calls s = 0"
  shows "statusMsg_text
           (poll_run [Tick, Tick, Settled (Some \<lparr>has_transcript = True, has_summary = True\<rparr>),
                      Settled (Some \<lparr>has_transcript = False, has_summary = False\<rparr>)] s)
           = no_result_message \<and>
         fetchResults_calls
           (poll_run [Tick, Tick, Settled (Some \<lparr>has_transcript = True, has_summary = True\<rparr>),
                      Settled (Some \<lparr>has_transcript = False, has_summary = False\<rparr>)] s) = 1"
  using assms
  by (simp add: poll_run_def callback_starts_def callback_resumes_def give_up_check_def
      maxAttempts_def Let_def)

lemma unanswered_in_turn:
  "k < maxAttempts \<Longrightarrow>
   in_turn_state (\<lambda>i. Some \<lparr>has_transcript = False, has_summary = False\<rparr>) k r \<Longrightarrow>
   resultPoll_active r \<and> in_flight r = 0 \<and> attempts r = k \<and> fetchResults_calls r = 0"
proof -
  assume k: "k < maxAttempts"
    and st: "in_turn_state (\<lambda>i. Some \<lparr>has_transcript = False, has_summary = False\<rparr>) k r"
  have "find (\<lambda>i. summary_seen (Some \<lparr>has_transcript = False, has_summary = False\<rparr>))
          [0..<min k maxAttempts] = None"
    by (simp add: find_None_iff summary_seen_def)
  with st k show ?thesis
    by (simp add: in_turn_state_def)
qed

lemma find_upt_first: "P 0 \<Longrightarrow> 0 < n \<Longrightarrow> find P [0..<n] = Some 0"
  by (simp add: upt_conv_Cons)

text \<open>
  C4, as stated, fails in three ways. The popup's result poll does not run on a longer
  interval than its status poll: both are 2000 ms. Its attempts are not bounded: the give-up
  check stands after the \<^verbatim>\<open>await\<close>, so while no request settles (151 firings here, with
  nothing answered) the interval stays active and the counter passes 150. And the no-result
  message is not kept for the case without a summary: after 148 answered rounds, two
  requests are in flight, the later one settles first with \<^verbatim>\<open>has_summary\<close> true, and
  the earlier one, settling afterwards without it, finds 150 attempts counted and reports
  that nothing was detected.
\<close>

theorem result_polling_longer_and_bounded_counterexample:
  "\<not> pollStatus_interval < resultPoll_interval \<and>
   resultPoll_active
     (poll_run (replicate 151 Tick)
        (pollForResults ''Transcribing locally...'' ''status-msg processing'')) \<and>
   attempts
     (poll_run (replicate 151 Tick)
        (pollForResults ''Transcribing locally...'' ''status-msg processing'')) = 151 \<and>
   statusMsg_text
     (poll_run
        (answered_in_turn (\<lambda>i. Some \<lparr>has_transcript = False, has_summary = False\<rparr>) 148 @
         [Tick, Tick, Settled (Some \<lparr>has_transcript = True, has_summary = True\<rparr>),
          Settled (Some \<lparr>has_transcript = False, has_summary = False\<rparr>)])
        (pollForResults ''Transcribing locally...'' ''status-msg processing''))
     = no_result_message \<and>
   fetchResults_calls
     (poll_run
        (answered_in_turn (\<lambda>i. Some \<lparr>has_transcript = False, has_summary = False\<rparr>) 148 @
         [Tick, Tick, Settled (Some \<lparr>has_transcript = True, has_summary = True\<rparr>),
          Settled (Some \<lparr>has_transcript = False, has_summary = False\<rparr>)])
        (pollForResults ''Transcribing locally...'' ''status-msg processing'')) = 1"
proof -
  let ?p = "pollForResults ''Transcribing locally...'' ''status-msg processing''"
  let ?no = "\<lambda>i::nat. Some \<lparr>has_transcript = False, has_summary = False\<rparr>"
  have same: "\<not> pollStatus_interval < resultPoll_interval"
    by (simp add: pollStatus_interval_def resultPoll_interval_def)
  have "resultPoll_active ?p" by (simp add: pollForResults_def)
  then have hung: "poll_run (replicate 151 Tick) ?p =
      ?p\<lparr>attempts := attempts ?p + 151, in_flight := in_flight ?p + 151\<rparr>"
    by (rule unanswered_ticks)
  have "in_turn_state ?no 148 (poll_run (answered_in_turn ?no 148) ?p)"
    by (rule answered_in_turn_state)
  then have st: "resultPoll_active (poll_run (answered_in_turn ?no 148) ?p) \<and>
      in_flight (poll_run (answered_in_turn ?no 148) ?p) = 0 \<and>
      attempts (poll_run (answered_in_turn ?no 148) ?p) = 148 \<and>
      fetchResults_calls (poll_run (answered_in_turn ?no 148) ?p) = 0"
    by (intro unanswered_in_turn) (simp_all add: maxAttempts_def)
  have late: "statusMsg_text
           (poll_run [Tick, Tick, Settled (Some \<lparr>has_transcript = True, has_summary = True\<rparr>),
                      Settled (Some \<lparr>has_transcript = False, has_summary = False\<rparr>)]
              (poll_run (answered_in_turn ?no 148) ?p))
           = no_result_message \<and>
         fetchResults_calls
           (poll_run [Tick, Tick, Settled (Some \<lparr>has_transcript = True, has_summary = True\<rparr>),
                      Settled (Some \<lparr>has_transcript = False, has_summary = False\<rparr>)]
              (poll_run (answered_in_turn ?no 148) ?p)) = 1"
    using st by (intro late_reply) simp_all
  show ?thesis
    using same late
    by (simp add: hung poll_run_append) (simp add: pollForResults_def)
qed

text \<open>
  C4, amended. After a stop request the popup's result poll (\<^verbatim>\<open>pollForResults\<close>) fires
  every 2000 ms, the interval of its status poll, and counts an attempt at each firing, up
  to a bound of 150 that its callbacks check when they resume. A callback that resumes
  with \<^verbatim>\<open>has_summary\<close> true stops the poll, reports "Summary ready!" and fetches the
  results; a callback that resumes without it, once 150 attempts are counted, stops the
  poll and reports the no-result message; a stopped poll makes no further attempt. So when
  every request settles before the interval fires again, the poll ends within 150
  attempts whatever the server replies: at the first reply with \<^verbatim>\<open>has_summary\<close> true,
  after exactly that many requests, and otherwise at the 150th attempt with the no-result
  message.
\<close>

theorem pollForResults_ends_when_answered:
  "resultPoll_interval = 2000 \<and> pollStatus_interval = 2000 \<and> maxAttempts = 150 \<and>
   (summary_seen reply \<and> 0 < in_flight s \<longrightarrow>
      \<not> resultPoll_active (poll_step (Settled reply) s) \<and>
      statusMsg_text (poll_step (Settled reply) s) = ''Summary ready!'' \<and>
      fetchResults_calls (poll_step (Settled reply) s) = Suc (fetchResults_calls s)) \<and>
   (\<not> summary_seen reply \<and> 0 < in_flight s \<and> maxAttempts \<le> attempts s \<longrightarrow>
      \<not> resultPoll_active (poll_step (Settled reply) s) \<and>
      statusMsg_text (poll_step (Settled reply) s) = no_result_message \<and>
      statusMsg_class (poll_step (Settled reply) s) = ''status-msg error'') \<and>
   (\<not> resultPoll_active s \<longrightarrow>
      \<not> resultPoll_active (poll_run events s) \<and> attempts (poll_run events s) = attempts s) \<and>
   (maxAttempts \<le> k \<longrightarrow>
      (let r = poll_run (answered_in_turn srv k) (pollForResults text cls) in
         \<not> resultPoll_active r \<and> in_flight r = 0 \<and> attempts r \<le> maxAttempts \<and>
         (case find (\<lambda>i. summary_seen (srv i)) [0..<maxAttempts] of
            Some i \<Rightarrow> attempts r = Suc i \<and> statusMsg_text r = ''Summary ready!'' \<and>
                      statusMsg_class r = ''status-msg'' \<and> fetchResults_calls r = 1
          | None \<Rightarrow> attempts r = maxAttempts \<and> statusMsg_text r = no_result_message \<and>
                    statusMsg_class r = ''status-msg error'' \<and> fetchResults_calls r = 0)))"
proof -
  have bounds: "resultPoll_interval = 2000 \<and> pollStatus_interval = 2000 \<and> maxAttempts = 150"
    by (simp add: maxAttempts_def resultPoll_interval_def pollStatus_interval_def)
  have turn: "maxAttempts \<le> k \<longrightarrow>
      (let r = poll_run (answered_in_turn srv k) (pollForResults text cls) in
         \<not> resultPoll_active r \<and> in_flight r = 0 \<and> attempts r \<le> maxAttempts \<and>
         (case find (\<lambda>i. summary_seen (srv i)) [0..<maxAttempts] of
            Some i \<Rightarrow> attempts r = Suc i \<and> statusMsg_text r = ''Summary ready!'' \<and>
                      statusMsg_class r = ''status-msg'' \<and> fetchResults_calls r = 1
          | None \<Rightarrow> attempts r = maxAttempts \<and> statusMsg_text r = no_result_message \<and>
                    statusMsg_class r = ''status-msg error'' \<and> fetchResults_calls r = 0))"
  proof
    assume k: "maxAttempts \<le> k"
    let ?r = "poll_run (answered_in_turn srv k) (pollForResults text cls)"
    have m: "min k maxAttempts = maxAttempts" using k by simp
    have nl: "\<not> k < maxAttempts" using k by simp
    have st: "in_turn_state srv k ?r" by (rule answered_in_turn_state)
    show "let r = ?r in
         \<not> resultPoll_active r \<and> in_flight r = 0 \<and> attempts r \<le> maxAttempts \<and>
         (case find (\<lambda>i. summary_seen (srv i)) [0..<maxAttempts] of
            Some i \<Rightarrow> attempts r = Suc i \<and> statusMsg_text r = ''Summary ready!'' \<and>
                      statusMsg_class r = ''status-msg'' \<and> fetchResults_calls r = 1
          | None \<Rightarrow> attempts r = maxAttempts \<and> statusMsg_text r = no_result_message \<and>
                    statusMsg_class r = ''status-msg error'' \<and> fetchResults_calls r = 0)"
    proof (cases "find (\<lambda>i. summary_seen (srv i)) [0..<maxAttempts]")
      case None
      with st nl show ?thesis by (simp add: in_turn_state_def m Let_def)
    next
      case (Some i)
      then have "i < maxAttempts" by (rule find_upt_less)
      with st Some show ?thesis by (simp add: in_turn_state_def m Let_def)
    qed
  qed
  from bounds settled_with_summary [of reply s] settled_at_bound [of reply s]
    stopped_stays [of s events] turn
  show ?thesis
    by blast
qed

theorem pollForResults_ends_when_answered_witness:
  "summary_seen (Some \<lparr>has_transcript = True, has_summary = True\<rparr>) \<and>
   0 < in_flight (callback_starts (pollForResults [] [])) \<and>
   \<not> resultPoll_active
        (poll_step (Settled (Some \<lparr>has_transcript = True, has_summary = True\<rparr>))
           (callback_starts (pollForResults [] []))) \<and>
   \<not> summary_seen None \<and>
   maxAttempts \<le> attempts (poll_run (replicate 150 Tick) (pollForResults [] [])) \<and>
   0 < in_flight (poll_run (replicate 150 Tick) (pollForResults [] [])) \<and>
   statusMsg_text
     (poll_step (Settled None) (poll_run (replicate 150 Tick) (pollForResults [] [])))
     = no_result_message \<and>
   \<not> resultPoll_active
        (poll_step (Settled None) (poll_run (replicate 150 Tick) (pollForResults [] []))) \<and>
   attempts
     (poll_run [Tick, Tick]
        (poll_step (Settled None) (poll_run (replicate 150 Tick) (pollForResults [] []))))
     = 150 \<and>
   maxAttempts \<le> 150 \<and>
   attempts
     (poll_run
        (answered_in_turn (\<lambda>i. Some \<lparr>has_transcript = True, has_summary = True\<rparr>) 150)
        (pollForResults [] [])) = 1 \<and>
   statusMsg_text
     (poll_run
        (answered_in_turn (\<lambda>i. Some \<lparr>has_transcript = True, has_summary = True\<rparr>) 150)
        (pollForResults [] [])) = ''Summary ready!''"
proof -
  let ?yes = "Some \<lparr>has_transcript = True, has_summary = True\<rparr>"
  let ?p = "pollForResults [] []"
  let ?hung = "poll_run (replicate 150 Tick) ?p"
  have seen: "summary_seen ?yes" "\<not> summary_seen None"
    by (simp_all add: summary_seen_def)
  have one: "0 < in_flight (callback_starts ?p)"
    by (simp add: callback_starts_def)
  have "resultPoll_active ?p" by (simp add: pollForResults_def)
  then have "?hung = ?p\<lparr>attempts := attempts ?p + 150, in_flight := in_flight ?p + 150\<rparr>"
    by (rule unanswered_ticks)
  then have hung: "maxAttempts \<le> attempts ?hung" "0 < in_flight ?hung" "attempts ?hung = 150"
    by (simp_all add: pollForResults_def maxAttempts_def)
  have k: "maxAttempts \<le> 150" by (simp add: maxAttempts_def)
  have first: "find (\<lambda>i. summary_seen ?yes) [0..<maxAttempts] = Some 0"
    by (rule find_upt_first) (simp_all add: summary_seen_def maxAttempts_def)
  from pollForResults_ends_when_answered [of ?yes "callback_starts ?p" "[]" 150 "\<lambda>i. ?yes" "[]" "[]"] seen one
  have a: "\<not> resultPoll_active (poll_step (Settled ?yes) (callback_starts ?p))"
    by blast
  from pollForResults_ends_when_answered [of ?yes "callback_starts ?p" "[]" 150 "\<lambda>i. ?yes" "[]" "[]"] k
  have "let r = poll_run (answered_in_turn (\<lambda>i. ?yes) 150) ?p in
         \<not> resultPoll_active r \<and> in_flight r = 0 \<and> attempts r \<le> maxAttempts \<and>
         (case find (\<lambda>i. summary_seen ?yes) [0..<maxAttempts] of
            Some i \<Rightarrow> attempts r = Suc i \<and> statusMsg_text r = ''Summary ready!'' \<and>
                      statusMsg_class r = ''status-msg'' \<and> fetchResults_calls r = 1
          | None \<Rightarrow> attempts r = maxAttempts \<and> statusMsg_text r = no_result_message \<and>
                    statusMsg_class r = ''status-msg error'' \<and> fetchResults_calls r = 0)"
    by blast
  then have d: "attempts (poll_run (answered_in_turn (\<lambda>i. ?yes) 150) ?p) = 1"
      "statusMsg_text (poll_run (answered_in_turn (\<lambda>i. ?yes) 150) ?p) = ''Summary ready!''"
    unfolding first by (simp_all add: Let_def)
  from pollForResults_ends_when_answered [of None ?hung "[]" 150 "\<lambda>i. None" "[]" "[]"] seen hung
  have b: "\<not> resultPoll_active (poll_step (Settled None) ?hung)"
    "statusMsg_text (poll_step (Settled None) ?hung) = no_result_message"
    by blast+
  from pollForResults_ends_when_answered [of None "poll_step (Settled None) ?hung" "[Tick, Tick]" 150 "\<lambda>i. None" "[]" "[]"]
    b(1)
  have "attempts (poll_run [Tick, Tick] (poll_step (Settled None) ?hung))
      = attempts (poll_step (Settled None) ?hung)"
    by blast
  also have "\<dots> = 150"
    using hung by (simp add: callback_resumes_def give_up_check_def Let_def)
  finally have c: "attempts (poll_run [Tick, Tick] (poll_step (Settled None) ?hung)) = 150" .
  from seen one a hung(1,2) b c k d show ?thesis
    by simp
qed

subsection \<open>The badge and the tracked tab\<close>

lemma meet_url_matches: "matches_meeting ''https://meet.google.com/abc-defg-hij''"
  by code_simp

lemma popup_detects_meet:
  "notified (detectMeeting (Some ''https://meet.google.com/abc-defg-hij'')) =
     Some \<lparr>msg_action = ''meetingDetected'', msg_platform = Some ''Google Meet'',
            msg_url = None\<rparr>"
  by code_simp

lemma other_url_does_not_match: "\<not> matches_meeting ''https://example.org/''"
  by code_simp

text \<open>
  C10, as stated, fails in its last part and in one of its two causes. A meeting tab (7)
  finishes loading and is tracked. In the first run the popup, opened on it, detects the
  meeting and sends its own \<^verbatim>\<open>meetingDetected\<close> message, whose sender has no tab, so the
  script keeps the REC badge and tracks \<^verbatim>\<open>null\<close>; in the second the browser re-evaluates
  the idle script, which resets the variable and leaves the badge. Then the tab is closed:
  in both runs the badge still reads REC and nothing is tracked. In the third run the tab
  starts to load another page: the event has status \<^verbatim>\<open>loading\<close>, and the badge and the
  tracked tab stay as they were.
\<close>

theorem rec_badge_persists_counterexample:
  "notified (detectMeeting (Some ''https://meet.google.com/abc-defg-hij'')) =
     Some \<lparr>msg_action = ''meetingDetected'', msg_platform = Some ''Google Meet'',
            msg_url = None\<rparr> \<and>
   badgeText
     (deliver_all
        [Installed,
         TabUpdated 7 (Some ''complete'') (Some ''https://meet.google.com/abc-defg-hij''),
         Message ''meetingDetected'' None,
         TabRemoved 7] background_start) = ''REC'' \<and>
   activeMeetingTabId
     (deliver_all
        [Installed,
         TabUpdated 7 (Some ''complete'') (Some ''https://meet.google.com/abc-defg-hij''),
         Message ''meetingDetected'' None,
         TabRemoved 7] background_start) = None \<and>
   badgeText
     (deliver_all
        [Installed,
         TabUpdated 7 (Some ''complete'') (Some ''https://meet.google.com/abc-defg-hij''),
         Restarted,
         TabRemoved 7] background_start) = ''REC'' \<and>
   activeMeetingTabId
     (deliver_all
        [Installed,
         TabUpdated 7 (Some ''complete'') (Some ''https://meet.google.com/abc-defg-hij''),
         Restarted,
         TabRemoved 7] background_start) = None \<and>
   badgeText
     (deliver_all
        [Installed,
         TabUpdated 7 (Some ''complete'') (Some ''https://meet.google.com/abc-defg-hij''),
         TabUpdated 7 (Some ''loading'') (Some ''https://example.org/'')]
        background_start) = ''REC'' \<and>
   activeMeetingTabId
     (deliver_all
        [Installed,
         TabUpdated 7 (Some ''complete'') (Some ''https://meet.google.com/abc-defg-hij''),
         TabUpdated 7 (Some ''loading'') (Some ''https://example.org/'')]
        background_start) = Some 7"
  by (simp add: deliver_all_def onInstalled_def onUpdated_def onMessage_def onRemoved_def
      script_loads_def background_start_def meet_url_matches popup_detects_meet)

text \<open>
  C10, amended. The response to a \<^verbatim>\<open>getActiveMeeting\<close> message always has
  \<open>hasMeeting = (tabId is non-null)\<close>. While \<^verbatim>\<open>activeMeetingTabId\<close> holds a tab's id,
  closing that tab, or an \<^verbatim>\<open>onUpdated\<close> event for it with status \<^verbatim>\<open>complete\<close> and a URL
  that matches no meeting pattern, resets \<^verbatim>\<open>activeMeetingTabId\<close> to \<^verbatim>\<open>null\<close> and clears
  the badge text.
\<close>

theorem badge_follows_tracked_tab:
  "fst (onMessage ''getActiveMeeting'' sender_tab b) =
     [ActiveMeeting (activeMeetingTabId b \<noteq> None) (activeMeetingTabId b)] \<and>
   (activeMeetingTabId b = Some tabId \<longrightarrow>
      activeMeetingTabId (onRemoved tabId b) = None \<and> badgeText (onRemoved tabId b) = []) \<and>
   (activeMeetingTabId b = Some tabId \<and> url \<noteq> [] \<and> \<not> matches_meeting url \<longrightarrow>
      activeMeetingTabId (onUpdated tabId (Some ''complete'') (Some url) b) = None \<and>
      badgeText (onUpdated tabId (Some ''complete'') (Some url) b) = [])"
proof -
  have reply: "fst (onMessage ''getActiveMeeting'' sender_tab b) =
     [ActiveMeeting (activeMeetingTabId b \<noteq> None) (activeMeetingTabId b)]"
    by (simp add: onMessage_def)
  have closed: "activeMeetingTabId b = Some tabId \<longrightarrow>
      activeMeetingTabId (onRemoved tabId b) = None \<and> badgeText (onRemoved tabId b) = []"
    by (simp add: onRemoved_def)
  have away: "activeMeetingTabId b = Some tabId \<and> url \<noteq> [] \<and> \<not> matches_meeting url \<longrightarrow>
      activeMeetingTabId (onUpdated tabId (Some ''complete'') (Some url) b) = None \<and>
      badgeText (onUpdated tabId (Some ''complete'') (Some url) b) = []"
    by (simp add: onUpdated_def)
  from reply closed away show ?thesis
    by blast
qed

theorem badge_follows_tracked_tab_witness:
  "activeMeetingTabId (background_start\<lparr>activeMeetingTabId := Some 7, badgeText := ''REC''\<rparr>)
     = Some 7 \<and>
   ''https://example.org/'' \<noteq> [] \<and> \<not> matches_meeting ''https://example.org/'' \<and>
   fst (onMessage ''getActiveMeeting'' None
          (background_start\<lparr>activeMeetingTabId := Some 7, badgeText := ''REC''\<rparr>)) =
     [ActiveMeeting True (Some 7)] \<and>
   activeMeetingTabId
     (onRemoved 7 (background_start\<lparr>activeMeetingTabId := Some 7, badgeText := ''REC''\<rparr>))
     = None \<and>
   badgeText
     (onRemoved 7 (background_start\<lparr>activeMeetingTabId := Some 7, badgeText := ''REC''\<rparr>))
     = [] \<and>
   activeMeetingTabId
     (onUpdated 7 (Some ''complete'') (Some ''https://example.org/'')
        (background_start\<lparr>activeMeetingTabId := Some 7, badgeText := ''REC''\<rparr>)) = None \<and>
   badgeText
     (onUpdated 7 (Some ''complete'') (Some ''https://example.org/'')
        (background_start\<lparr>activeMeetingTabId := Some 7, badgeText := ''REC''\<rparr>)) = []"
proof -
  let ?b = "background_start\<lparr>activeMeetingTabId := Some 7, badgeText := ''REC''\<rparr>"
  have tracked: "activeMeetingTabId ?b = Some 7"
    by simp
  have other: "''https://example.org/'' \<noteq> [] \<and> \<not> matches_meeting ''https://example.org/''"
    by (simp add: other_url_does_not_match)
  from badge_follows_tracked_tab [of None ?b 7 "''https://example.org/''"] tracked other
  show ?thesis
    by simp
qed

subsection \<open>The exported summary\<close>

lemma foldl_append_entries: "foldl (\<lambda>text x. text @ f x) acc xs = acc @ concat (map f xs)"
  by (induction xs arbitrary: acc) simp_all

lemma list_entry_dash:
  "list_entry KeyPoints = (\<lambda>p. ''- '' @ p @ ''\<newline>'')"
  "list_entry Decisions = (\<lambda>p. ''- '' @ p @ ''\<newline>'')"
  "list_entry NextSteps = (\<lambda>p. ''- '' @ p @ ''\<newline>'')"
  by (rule ext, simp)+

lemma list_entry_checkbox: "list_entry ActionItems = (\<lambda>a. ''- [ ] '' @ a @ ''\<newline>'')"
  by (rule ext) simp

lemma copySummary_text_sections:
  "copySummary_text data =
     ''# '' @ or_else (meeting_title data) ''Meeting Summary'' @ ''\<newline>\<newline>'' @
     concat (map (exported_section data)
       (filter (in_document data) [Summary, KeyPoints, ActionItems, Decisions, NextSteps]))"
  by (simp add: copySummary_text_def Let_def foldl_append_entries list_entry_dash
      list_entry_checkbox)

lemma fetchResults_cards:
  "ready data \<Longrightarrow>
   resultsArea (fetchResults (Some transcriptData) (Some data) ui) =
     map (section_card data)
       (filter (in_cards data) [Summary, KeyPoints, ActionItems, Decisions, NextSteps])"
  by (simp add: fetchResults_def Let_def createResultCard_def)

lemma document_lines_line:
  "single_line l \<Longrightarrow> document_lines (l @ CHR 0x0A # rest) = l # document_lines rest"
  by (induction l) (auto simp: single_line_def)

lemma headings_line:
  "single_line l \<Longrightarrow>
   document_headings (l @ CHR 0x0A # rest) =
     (if prefix ''## '' l then [drop 3 l] else []) @ document_headings rest"
  by (simp add: document_headings_def document_lines_line)

lemma single_line_entry: "single_line x \<Longrightarrow> single_line (''- '' @ x)" "single_line x \<Longrightarrow> single_line (''- [ ] '' @ x)"
  by (simp_all add: single_line_def)

lemma headings_entries:
  "list_all single_line xs \<Longrightarrow>
   document_headings (concat (map (list_entry s) xs) @ rest) = document_headings rest"
proof (induction xs)
  case Nil
  then show ?case by simp
next
  case (Cons x xs)
  then have x: "single_line x" and xs: "list_all single_line xs" by simp_all
  have "list_entry s x = (if s = ActionItems then ''- [ ] '' else ''- '') @ x @ ''\<newline>''"
    by (cases s) simp_all
  then obtain pre where e: "list_entry s x = (pre @ x) @ CHR 0x0A # []" and p: "single_line (pre @ x)" "\<not> prefix ''## '' (pre @ x)"
    using x by (cases "s = ActionItems") (simp_all add: single_line_def)
  have "document_headings (concat (map (list_entry s) (x # xs)) @ rest)
      = document_headings ((pre @ x) @ CHR 0x0A # (concat (map (list_entry s) xs) @ rest))"
    by (simp add: e)
  also have "\<dots> = document_headings (concat (map (list_entry s) xs) @ rest)"
    using p by (simp only: headings_line) simp
  finally show ?case using Cons.IH [OF xs] by simp
qed

lemma section_items_single:
  "plain_summary data \<Longrightarrow> list_all single_line (section_items data s)"
  by (cases s) (simp_all add: plain_summary_def)

lemma headings_section:
  assumes "plain_summary data"
  shows "document_headings (exported_section data s @ rest) =
     section_heading s # document_headings rest"
proof -
  have items: "list_all single_line (section_items data s)"
    using assms by (rule section_items_single)
  have hd: "\<And>h r. single_line h \<Longrightarrow> document_headings ((''## '' @ h) @ CHR 0x0A # r) = h # document_headings r"
    by (subst headings_line) (simp_all add: single_line_def)
  have blank: "\<And>r. document_headings (CHR 0x0A # r) = document_headings r"
    using headings_line [of "[]"] by (simp add: single_line_def)
  show ?thesis
  proof (cases s)
    case Summary
    have ex: "single_line (executive_summary data)" "\<not> prefix ''## '' (executive_summary data)"
      using assms by (simp_all add: plain_summary_def)
    have "document_headings (exported_section data Summary @ rest) =
        document_headings ((''## '' @ ''Summary'') @ CHR 0x0A # (executive_summary data @ CHR 0x0A # CHR 0x0A # rest))"
      by simp
    also have "\<dots> = ''Summary'' # document_headings (executive_summary data @ CHR 0x0A # CHR 0x0A # rest)"
      by (rule hd) (simp add: single_line_def)
    also have "\<dots> = ''Summary'' # document_headings rest"
      using ex by (simp add: headings_line blank)
    finally show ?thesis using Summary by simp
  next
    case NextSteps
    have "document_headings (exported_section data NextSteps @ rest) =
        document_headings ((''## '' @ ''Next Steps'') @ CHR 0x0A # (concat (map (list_entry NextSteps) (next_steps data)) @ rest))"
      by simp
    also have "\<dots> = ''Next Steps'' # document_headings (concat (map (list_entry NextSteps) (next_steps data)) @ rest)"
      by (rule hd) (simp add: single_line_def)
    also have "\<dots> = ''Next Steps'' # document_headings rest"
      using items NextSteps by (simp add: headings_entries)
    finally show ?thesis using NextSteps by simp
  next
    case KeyPoints
    have "document_headings (exported_section data KeyPoints @ rest) =
        document_headings ((''## '' @ ''Key Points'') @ CHR 0x0A # (concat (map (list_entry KeyPoints) (key_discussion_points data)) @ CHR 0x0A # rest))"
      by simp
    also have "\<dots> = ''Key Points'' # document_headings (concat (map (list_entry KeyPoints) (key_discussion_points data)) @ CHR 0x0A # rest)"
      by (rule hd) (simp add: single_line_def)
    also have "\<dots> = ''Key Points'' # document_headings rest"
      using items KeyPoints by (simp add: headings_entries blank)
    finally show ?thesis using KeyPoints by simp
  next
    case ActionItems
    have "document_headings (exported_section data ActionItems @ rest) =
        document_headings ((''## '' @ ''Action Items'') @ CHR 0x0A # (concat (map (list_entry ActionItems) (action_items data)) @ CHR 0x0A # rest))"
      by simp
    also have "\<dots> = ''Action Items'' # document_headings (concat (map (list_entry ActionItems) (action_items data)) @ CHR 0x0A # rest)"
      by (rule hd) (simp add: single_line_def)
    also have "\<dots> = ''Action Items'' # document_headings rest"
      using items ActionItems by (simp add: headings_entries blank)
    finally show ?thesis using ActionItems by simp
  next
    case Decisions
    have "document_headings (exported_section data Decisions @ rest) =
        document_headings ((''## '' @ ''Decisions'') @ CHR 0x0A # (concat (map (list_entry Decisions) (decisions_made data)) @ CHR 0x0A # rest))"
      by simp
    also have "\<dots> = ''Decisions'' # document_headings (concat (map (list_entry Decisions) (decisions_made data)) @ CHR 0x0A # rest)"
      by (rule hd) (simp add: single_line_def)
    also have "\<dots> = ''Decisions'' # document_headings rest"
      using items Decisions by (simp add: headings_entries blank)
    finally show ?thesis using Decisions by simp
  qed
qed

lemma headings_sections:
  "plain_summary data \<Longrightarrow>
   document_headings (concat (map (exported_section data) secs) @ rest) =
     map section_heading secs @ document_headings rest"
  by (induction secs) (simp_all add: headings_section)

lemma headings_of_document:
  assumes "plain_summary data"
  shows "document_headings (copySummary_text data) =
     map section_heading
       (filter (in_document data) [Summary, KeyPoints, ActionItems, Decisions, NextSteps])"
proof -
  let ?title = "''# '' @ or_else (meeting_title data) ''Meeting Summary''"
  let ?secs = "filter (in_document data) [Summary, KeyPoints, ActionItems, Decisions, NextSteps]"
  have t: "single_line ?title" "\<not> prefix ''## '' ?title"
    using assms by (simp_all add: plain_summary_def single_line_def)
  have "copySummary_text data =
      ?title @ CHR 0x0A # CHR 0x0A # (concat (map (exported_section data) ?secs) @ [])"
    by (simp add: copySummary_text_sections)
  then have "document_headings (copySummary_text data) =
      document_headings (CHR 0x0A # (concat (map (exported_section data) ?secs) @ []))"
    using t by (simp only: headings_line) simp
  also have "\<dots> = document_headings (concat (map (exported_section data) ?secs) @ [])"
    using headings_line [of "[]"] by (simp add: single_line_def)
  also have "\<dots> = map section_heading ?secs @ document_headings []"
    using assms by (rule headings_sections)
  finally show ?thesis by (simp add: document_headings_def)
qed

text \<open>
  C3. For every ready summary, the text \<^verbatim>\<open>copySummary\<close> puts on the clipboard is the
  title line followed by the sections in the order Summary, Key Points, Action Items,
  Decisions, Next Steps, a list section left out when its list is empty; the Action Items
  section renders every item as the checkable entry \<^verbatim>\<open>- [ ] <item>\<close>; read back line by
  line (for texts that are single lines), the document's headings are those of the same
  sections in the same order; and the cards \<^verbatim>\<open>fetchResults\<close> renders are the cards of the
  sections in that order, the Summary card left out when the text is empty (a card lists
  its items as plain entries).
\<close>

theorem exported_summary_section_order:
  "ready data \<longrightarrow>
     clipboard (copySummary (Some data) True) = Some (copySummary_text data) \<and>
     copySummary_text data =
       ''# '' @ or_else (meeting_title data) ''Meeting Summary'' @ ''\<newline>\<newline>'' @
       concat (map (exported_section data)
         (filter (in_document data) [Summary, KeyPoints, ActionItems, Decisions, NextSteps])) \<and>
     exported_section data ActionItems =
       ''## Action Items\<newline>'' @
       concat (map (\<lambda>a. ''- [ ] '' @ a @ ''\<newline>'') (action_items data)) @ ''\<newline>'' \<and>
     (plain_summary data \<longrightarrow>
        document_headings (copySummary_text data) =
          map section_heading
            (filter (in_document data) [Summary, KeyPoints, ActionItems, Decisions, NextSteps])) \<and>
     resultsArea (fetchResults (Some transcriptData) (Some data) ui) =
       map (section_card data)
         (filter (in_cards data) [Summary, KeyPoints, ActionItems, Decisions, NextSteps])"
proof
  assume r: "ready data"
  have clip: "clipboard (copySummary (Some data) True) = Some (copySummary_text data)"
    using r by (simp add: copySummary_def)
  have entries: "exported_section data ActionItems =
       ''## Action Items\<newline>'' @
       concat (map (\<lambda>a. ''- [ ] '' @ a @ ''\<newline>'') (action_items data)) @ ''\<newline>''"
    by (simp add: list_entry_checkbox)
  have heads: "plain_summary data \<longrightarrow>
        document_headings (copySummary_text data) =
          map section_heading
            (filter (in_document data) [Summary, KeyPoints, ActionItems, Decisions, NextSteps])"
    using headings_of_document by blast
  from clip copySummary_text_sections [of data] entries heads fetchResults_cards [OF r]
  show "clipboard (copySummary (Some data) True) = Some (copySummary_text data) \<and>
     copySummary_text data =
       ''# '' @ or_else (meeting_title data) ''Meeting Summary'' @ ''\<newline>\<newline>'' @
       concat (map (exported_section data)
         (filter (in_document data) [Summary, KeyPoints, ActionItems, Decisions, NextSteps])) \<and>
     exported_section data ActionItems =
       ''## Action Items\<newline>'' @
       concat (map (\<lambda>a. ''- [ ] '' @ a @ ''\<newline>'') (action_items data)) @ ''\<newline>'' \<and>
     (plain_summary data \<longrightarrow>
        document_headings (copySummary_text data) =
          map section_heading
            (filter (in_document data) [Summary, KeyPoints, ActionItems, Decisions, NextSteps])) \<and>
     resultsArea (fetchResults (Some transcriptData) (Some data) ui) =
       map (section_card data)
         (filter (in_cards data) [Summary, KeyPoints, ActionItems, Decisions, NextSteps])"
    by blast
qed

theorem exported_summary_section_order_witness:
  "ready example_summary \<and> plain_summary example_summary \<and>
   clipboard (copySummary (Some example_summary) True) =
     Some ''# Meeting Summary\<newline>\<newline>## Summary\<newline>We met.\<newline>\<newline>## Key Points\<newline>- a\<newline>- b\<newline>\<newline>## Action Items\<newline>- [ ] ship it\<newline>\<newline>## Next Steps\<newline>- x\<newline>'' \<and>
   document_headings (copySummary_text example_summary) =
     [''Summary'', ''Key Points'', ''Action Items'', ''Next Steps''] \<and>
   resultsArea (fetchResults (Some example_transcript) (Some example_summary) empty_results) =
     [[H3 ''Summary'', Para ''We met.''],
      [H3 ''Key Points'', UList [''a'', ''b'']],
      [H3 ''Action Items'', UList [''ship it'']],
      [H3 ''Next Steps'', UList [''x'']]]"
proof -
  have r: "ready example_summary"
    by (simp add: example_summary_def)
  have p: "plain_summary example_summary"
    by (simp add: example_summary_def plain_summary_def single_line_def)
  from exported_summary_section_order [of example_summary example_transcript empty_results] r p
  have "clipboard (copySummary (Some example_summary) True) = Some (copySummary_text example_summary)"
    and "copySummary_text example_summary =
       ''# '' @ or_else (meeting_title example_summary) ''Meeting Summary'' @ ''\<newline>\<newline>'' @
       concat (map (exported_section example_summary)
         (filter (in_document example_summary)
            [Summary, KeyPoints, ActionItems, Decisions, NextSteps]))"
    and "document_headings (copySummary_text example_summary) =
          map section_heading
            (filter (in_document example_summary)
               [Summary, KeyPoints, ActionItems, Decisions, NextSteps])"
    and "resultsArea (fetchResults (Some example_transcript) (Some example_summary) empty_results) =
       map (section_card example_summary)
         (filter (in_cards example_summary)
            [Summary, KeyPoints, ActionItems, Decisions, NextSteps])"
    by blast+
  with r p show ?thesis
    by (simp add: example_summary_def)
qed

subsection \<open>The session state machine\<close>

lemma start_conflict:
  "current_state m \<in> {Recording, Stopping, Transcribing, Summarizing} \<Longrightarrow>
   start dev device_opens now m = (Inl StateConflictError, m)"
  by (simp add: start_def)

lemma start_succeeds:
  "current_state m \<in> {Idle, Ready, Failed} \<Longrightarrow> device_opens \<Longrightarrow>
   start dev device_opens now m =
     (Inr (),
      m\<lparr>session := Some \<lparr>session_id = next_session_id m, session_state = Recording,
                          device_id = dev, start_time = now, duration = 0, audio_level = 0,
                          transcript = None, summary = None, session_error = None\<rparr>,
        next_session_id := Suc (next_session_id m)\<rparr>)"
  by (auto simp: start_def Let_def set_state_def)

lemma start_success_only:
  "fst (start dev device_opens now m) = Inr () \<Longrightarrow>
   current_state m \<in> {Idle, Ready, Failed} \<and> device_opens"
  by (cases "current_state m") (auto simp: start_def Let_def split: if_splits)

text \<open>
  C1 (on the model of the specification). A call of \<open>start\<close> succeeds only when the state
  is \<open>Idle\<close>, \<open>Ready\<close> or \<open>Failed\<close>, and then a new session is allocated (the next
  identifier, nothing carried over) in state \<open>Recording\<close>; from those states it does
  succeed whenever the device opens; and in state \<open>Recording\<close>, \<open>Stopping\<close>,
  \<open>Transcribing\<close> or \<open>Summarizing\<close> it fails with \<open>StateConflictError\<close> and leaves the
  orchestrator as it was.
\<close>

theorem start_only_from_idle_ready_failed:
  "(fst (start dev device_opens now m) = Inr () \<longrightarrow>
      current_state m \<in> {Idle, Ready, Failed} \<and>
      current_state (snd (start dev device_opens now m)) = Recording \<and>
      session (snd (start dev device_opens now m)) =
        Some \<lparr>session_id = next_session_id m, session_state = Recording,
              device_id = dev, start_time = now, duration = 0, audio_level = 0,
              transcript = None, summary = None, session_error = None\<rparr>) \<and>
   (current_state m \<in> {Idle, Ready, Failed} \<and> device_opens \<longrightarrow>
      fst (start dev device_opens now m) = Inr ()) \<and>
   (current_state m \<in> {Recording, Stopping, Transcribing, Summarizing} \<longrightarrow>
      start dev device_opens now m = (Inl StateConflictError, m))"
proof -
  have a: "fst (start dev device_opens now m) = Inr () \<longrightarrow>
      current_state m \<in> {Idle, Ready, Failed} \<and>
      current_state (snd (start dev device_opens now m)) = Recording \<and>
      session (snd (start dev device_opens now m)) =
        Some \<lparr>session_id = next_session_id m, session_state = Recording,
              device_id = dev, start_time = now, duration = 0, audio_level = 0,
              transcript = None, summary = None, session_error = None\<rparr>"
  proof
    assume ok: "fst (start dev device_opens now m) = Inr ()"
    then have pre: "current_state m \<in> {Idle, Ready, Failed}" "device_opens"
      using start_success_only by blast+
    show "current_state m \<in> {Idle, Ready, Failed} \<and>
      current_state (snd (start dev device_opens now m)) = Recording \<and>
      session (snd (start dev device_opens now m)) =
        Some \<lparr>session_id = next_session_id m, session_state = Recording,
              device_id = dev, start_time = now, duration = 0, audio_level = 0,
              transcript = None, summary = None, session_error = None\<rparr>"
      using pre by (simp add: start_succeeds current_state_def)
  qed
  have b: "current_state m \<in> {Idle, Ready, Failed} \<and> device_opens \<longrightarrow>
      fst (start dev device_opens now m) = Inr ()"
    by (simp add: start_succeeds)
  have c: "current_state m \<in> {Recording, Stopping, Transcribing, Summarizing} \<longrightarrow>
      start dev device_opens now m = (Inl StateConflictError, m)"
    using start_conflict by blast
  from a b c show ?thesis by blast
qed

theorem start_only_from_idle_ready_failed_witness:
  "current_state orchestrator_start \<in> {Idle, Ready, Failed} \<and>
   fst (start None True 0 orchestrator_start) = Inr () \<and>
   current_state (snd (start None True 0 orchestrator_start)) = Recording \<and>
   current_state (snd (start None True 0 orchestrator_start))
     \<in> {Recording, Stopping, Transcribing, Summarizing} \<and>
   start None True 1 (snd (start None True 0 orchestrator_start)) =
     (Inl StateConflictError, snd (start None True 0 orchestrator_start))"
proof -
  have idle: "current_state orchestrator_start \<in> {Idle, Ready, Failed}"
    by (simp add: current_state_def orchestrator_start_def)
  from start_only_from_idle_ready_failed [of None True 0 orchestrator_start] idle
  have first: "fst (start None True 0 orchestrator_start) = Inr ()"
    and rec: "current_state (snd (start None True 0 orchestrator_start)) = Recording"
    by blast+
  from rec have busy: "current_state (snd (start None True 0 orchestrator_start))
     \<in> {Recording, Stopping, Transcribing, Summarizing}"
    by simp
  from start_only_from_idle_ready_failed
    [of None True 1 "snd (start None True 0 orchestrator_start)"] busy
  have "start None True 1 (snd (start None True 0 orchestrator_start)) =
     (Inl StateConflictError, snd (start None True 0 orchestrator_start))"
    by blast
  with idle first rec busy show ?thesis
    by blast
qed

subsection \<open>A crash of the transcription worker\<close>

lemma crash_result:
  "current_state m = Transcribing \<Longrightarrow> ending = ExitsNonZero \<or> ending = ChannelBroken \<Longrightarrow>
   ready_worker m \<or> spawns \<Longrightarrow>
   capture_finalized spawns ending m =
     (Inl WorkerCrashError,
      fail_session WorkerCrashError
        (mark_worker Crashed (mark_worker Busy (if ready_worker m then m else spawn m))))"
  by (auto simp: capture_finalized_def submit_def Let_def)

lemma worker_unchanged [simp]:
  "worker (fail_session e m) = worker m" "worker (set_state st m) = worker m"
  "next_process_id (fail_session e m) = next_process_id m"
  "next_process_id (set_state st m) = next_process_id m"
  "next_process_id (mark_worker l m) = next_process_id m"
  "session (mark_worker l m) = session m"
  "session (spawn m) = session m"
  by (simp_all add: fail_session_def set_state_def mark_worker_def spawn_def)


lemma crashed_worker:
  "known_worker m \<Longrightarrow>
   \<exists>h. worker (mark_worker Crashed (mark_worker Busy (if ready_worker m then m else spawn m))) = Some h \<and>
       lifecycle_status h = Crashed \<and> process_id h < next_process_id (if ready_worker m then m else spawn m)"
  by (auto simp: mark_worker_def spawn_def ready_worker_def known_worker_def split: option.splits)

lemma next_submission_spawns:
  assumes w: "worker m = Some h" "lifecycle_status h = Crashed"
    and st: "current_state m \<in> {Idle, Ready, Failed}"
  shows "\<exists>h'. worker (snd (capture_finalized True ending
            (snd (stop (Some seconds) (snd (start dev True now m))))))
           = Some h' \<and> process_id h' = next_process_id m"
proof -
  let ?m1 = "snd (start dev True now m)"
  let ?m2 = "snd (stop (Some seconds) ?m1)"
  have m1: "current_state ?m1 = Recording" "worker ?m1 = worker m"
    "next_process_id ?m1 = next_process_id m"
    using st by (simp_all add: start_succeeds current_state_def)
  have m2: "current_state ?m2 = Transcribing" "worker ?m2 = worker m"
    "next_process_id ?m2 = next_process_id m"
    using m1 by (auto simp: stop_def Let_def current_state_def set_state_def split: option.splits)
  have nr: "\<not> ready_worker ?m2"
    using m2 w by (simp add: ready_worker_def)
  show ?thesis
    using m2 nr
    by (cases ending)
       (auto simp: capture_finalized_def submit_def Let_def spawn_def mark_worker_def
          fail_session_def set_state_def)
qed

lemma known_worker_kept:
  "known_worker orchestrator_start"
  "known_worker m \<Longrightarrow> known_worker (snd (start dev device_opens now m))"
  "known_worker m \<Longrightarrow> known_worker (snd (stop finalized m))"
  "known_worker m \<Longrightarrow> known_worker (snd (capture_finalized spawns ending m))"
  "known_worker m \<Longrightarrow> known_worker (summarization_complete r m)"
  by (auto simp: known_worker_def orchestrator_start_def start_def stop_def
      capture_finalized_def submit_def summarization_complete_def Let_def set_state_def
      fail_session_def mark_worker_def spawn_def split: option.splits submission_end.splits)

text \<open>
  C2 (on the model of the specification). A submission made in state \<open>Transcribing\<close>,
  with no transcript and no summary yet, whose worker exits non-zero or whose channel
  breaks before a response: the submission yields \<open>WorkerCrashError\<close>; the session is
  \<open>Failed\<close> with the error in \<open>/status\<close>, \<open>has_transcript\<close> and \<open>has_summary\<close>
  still false; the worker handle is marked \<open>Crashed\<close>; a following \<open>start\<close> succeeds; and
  the submission of that next session runs on a handle with another process identifier,
  whatever its end.
\<close>

theorem worker_crash_fails_session:
  "current_state m = Transcribing \<and> \<not> status_has_transcript (status m) \<and>
   \<not> status_has_summary (status m) \<and> (ending = ExitsNonZero \<or> ending = ChannelBroken) \<and>
   (ready_worker m \<or> spawns) \<and> known_worker m \<longrightarrow>
   (let m' = snd (capture_finalized spawns ending m) in
      fst (capture_finalized spawns ending m) = Inl WorkerCrashError \<and>
      current_state m' = Failed \<and>
      status_error (status m') = Some WorkerCrashError \<and>
      \<not> status_has_transcript (status m') \<and> \<not> status_has_summary (status m') \<and>
      fst (start dev True now m') = Inr () \<and>
      (\<exists>h h'. worker m' = Some h \<and> lifecycle_status h = Crashed \<and>
         worker (snd (capture_finalized True ending'
                  (snd (stop (Some seconds) (snd (start dev True now m')))))) = Some h' \<and>
         process_id h' \<noteq> process_id h))"
proof
  assume h: "current_state m = Transcribing \<and> \<not> status_has_transcript (status m) \<and>
   \<not> status_has_summary (status m) \<and> (ending = ExitsNonZero \<or> ending = ChannelBroken) \<and>
   (ready_worker m \<or> spawns) \<and> known_worker m"
  let ?w = "mark_worker Crashed (mark_worker Busy (if ready_worker m then m else spawn m))"
  let ?m' = "fail_session WorkerCrashError ?w"
  have res: "capture_finalized spawns ending m = (Inl WorkerCrashError, ?m')"
    using h by (intro crash_result) blast+
  obtain s where s: "session m = Some s" "session_state s = Transcribing"
    "transcript s = None" "summary s = None"
    using h by (auto simp: current_state_def status_def split: option.splits)
  have sess: "session ?m' = Some (s\<lparr>session_state := Failed, session_error := Some WorkerCrashError\<rparr>)"
    using s by (simp add: fail_session_def)
  have failed: "current_state ?m' = Failed"
    using sess by (simp add: current_state_def)
  have st: "status_error (status ?m') = Some WorkerCrashError"
    "\<not> status_has_transcript (status ?m')" "\<not> status_has_summary (status ?m')"
    using sess s by (simp_all add: status_def)
  obtain hc where hc: "worker ?m' = Some hc" "lifecycle_status hc = Crashed"
    "process_id hc < next_process_id ?m'"
    using crashed_worker [of m] h by auto
  have again: "fst (start dev True now ?m') = Inr ()"
    using failed by (simp add: start_succeeds)
  obtain h' where h': "worker (snd (capture_finalized True ending'
            (snd (stop (Some seconds) (snd (start dev True now ?m')))))) = Some h'"
      "process_id h' = next_process_id ?m'"
    using next_submission_spawns [where ending = ending' and seconds = seconds and dev = dev
        and now = now, OF hc(1,2)] failed by auto
  have "process_id h' \<noteq> process_id hc"
    using hc(3) h'(2) by simp
  with res failed st again hc h'
  show "let m' = snd (capture_finalized spawns ending m) in
      fst (capture_finalized spawns ending m) = Inl WorkerCrashError \<and>
      current_state m' = Failed \<and>
      status_error (status m') = Some WorkerCrashError \<and>
      \<not> status_has_transcript (status m') \<and> \<not> status_has_summary (status m') \<and>
      fst (start dev True now m') = Inr () \<and>
      (\<exists>h h'. worker m' = Some h \<and> lifecycle_status h = Crashed \<and>
         worker (snd (capture_finalized True ending'
                  (snd (stop (Some seconds) (snd (start dev True now m')))))) = Some h' \<and>
         process_id h' \<noteq> process_id h)"
    by (simp add: Let_def)
qed

lemma transcribing_session_ready:
  "current_state transcribing_session = Transcribing"
  "\<not> status_has_transcript (status transcribing_session)"
  "\<not> status_has_summary (status transcribing_session)"
  "known_worker transcribing_session"
  by (simp_all add: transcribing_session_def start_def stop_def orchestrator_start_def
      current_state_def set_state_def status_def known_worker_def Let_def)

theorem worker_crash_fails_session_witness:
  "current_state transcribing_session = Transcribing \<and>
   \<not> status_has_transcript (status transcribing_session) \<and>
   \<not> status_has_summary (status transcribing_session) \<and>
   known_worker transcribing_session \<and>
   fst (capture_finalized True ExitsNonZero transcribing_session) = Inl WorkerCrashError \<and>
   current_state (snd (capture_finalized True ExitsNonZero transcribing_session)) = Failed \<and>
   status_error (status (snd (capture_finalized True ExitsNonZero transcribing_session))) =
     Some WorkerCrashError \<and>
   \<not> status_has_transcript
        (status (snd (capture_finalized True ExitsNonZero transcribing_session))) \<and>
   \<not> status_has_summary
        (status (snd (capture_finalized True ExitsNonZero transcribing_session))) \<and>
   fst (start None True 100 (snd (capture_finalized True ExitsNonZero transcribing_session))) =
     Inr ()"
proof -
  note pre = transcribing_session_ready
  from worker_crash_fails_session
    [of transcribing_session ExitsNonZero True None 100 ChannelBroken 30] pre
  show ?thesis
    by (simp add: Let_def)
qed


end
